theory Spec2Isabelle
  imports Main
begin

section \<open>JavaScript values\<close>

text \<open>
  The conversion rules of \<open>src/core/components.tsx\<close> build untyped objects
  (\<open>const instance: any = {...}\<close>), assign properties to them and test them with
  \<open>Array.isArray\<close>, truthiness and marker functions. They are modelled over one type of
  JavaScript values. An object is the list of its own properties in insertion order.
  A function value is abstracted to the value a call without arguments returns: the only
  functions the rules call are the closures they build themselves
  (\<open>() => true\<close>, \<open>() => props.selected\<close>).
\<close>

datatype jsval =
    JUndefined
  | JNull
  | JBool bool
  | JNum int
  | JStr string
  | JFun jsval
  | JArr "jsval list"
  | JObj "(string \<times> jsval) list"

type_synonym fields = "(string \<times> jsval) list"

text \<open>
  \<open>TypeError\<close> is the JavaScript exception. \<open>Unmodelled\<close> marks the few JavaScript
  behaviours the model does not cover (a property written to an array or a function,
  the string conversion of a non-primitive). \<open>OutOfFuel\<close> belongs to the model of the
  engine only.
\<close>

datatype error = TypeError | Unmodelled | OutOfFuel

definition andThen :: "error + 'a \<Rightarrow> ('a \<Rightarrow> error + 'b) \<Rightarrow> error + 'b" where
  "andThen m f = (case m of Inl e \<Rightarrow> Inl e | Inr x \<Rightarrow> f x)"

text \<open>\<open>o[k]\<close> on the own properties of an object; an absent property reads \<open>undefined\<close>.\<close>

fun lookup :: "fields \<Rightarrow> string \<Rightarrow> jsval" where
  "lookup [] k = JUndefined"
| "lookup ((k', v) # fs) k = (if k' = k then v else lookup fs k)"

text \<open>\<open>o[k] = v\<close>: an existing property keeps its place, a new one goes last.\<close>

fun put :: "string \<Rightarrow> jsval \<Rightarrow> fields \<Rightarrow> fields" where
  "put k v [] = [(k, v)]"
| "put k v ((k', v') # fs) = (if k' = k then (k, v) # fs else (k', v') # put k v fs)"

definition has_field :: "fields \<Rightarrow> string \<Rightarrow> bool" where
  "has_field fs k = (k \<in> set (map fst fs))"

text \<open>JavaScript truthiness (\<open>if (x)\<close>, \<open>x && y\<close>, \<open>Boolean(x)\<close>, \<open>c ? a : b\<close>).\<close>

fun truthy :: "jsval \<Rightarrow> bool" where
  "truthy JUndefined = False"
| "truthy JNull = False"
| "truthy (JBool b) = b"
| "truthy (JNum n) = (n \<noteq> 0)"
| "truthy (JStr s) = (s \<noteq> [])"
| "truthy (JFun v) = True"
| "truthy (JArr xs) = True"
| "truthy (JObj fs) = True"

text \<open>
  A property read \<open>x.k\<close>. It throws on \<open>undefined\<close> and \<open>null\<close>. The rules read only the
  names \<open>type\<close>, \<open>fields\<close>, \<open>options\<close>, \<open>isOptionGroup\<close> and \<open>isSelected\<close> from resolved
  values; none of them is a property of a primitive, an array or a function.
\<close>

fun get_prop :: "jsval \<Rightarrow> string \<Rightarrow> error + jsval" where
  "get_prop JUndefined k = Inl TypeError"
| "get_prop JNull k = Inl TypeError"
| "get_prop (JObj fs) k = Inr (lookup fs k)"
| "get_prop v k = Inr JUndefined"

text \<open>
  A property write \<open>x.k = v\<close>, returning the updated \<open>x\<close>. The module is strict code, so
  the write throws on a primitive as it does on \<open>undefined\<close> and \<open>null\<close>.
\<close>

fun assign :: "jsval \<Rightarrow> string \<Rightarrow> jsval \<Rightarrow> error + jsval" where
  "assign (JObj fs) k v = Inr (JObj (put k v fs))"
| "assign (JArr xs) k v = Inl Unmodelled"
| "assign (JFun r) k v = Inl Unmodelled"
| "assign x k v = Inl TypeError"

text \<open>\<open>instance.k1.k2 = v\<close> on the object \<open>instance\<close>.\<close>

definition assign_in :: "fields \<Rightarrow> string \<Rightarrow> string \<Rightarrow> jsval \<Rightarrow> error + fields" where
  "assign_in instance k1 k2 v =
     andThen (assign (lookup instance k1) k2 v) (\<lambda>x. Inr (put k1 x instance))"

text \<open>\<open>f()\<close>: calling a value that is not a function throws.\<close>

fun call :: "jsval \<Rightarrow> error + jsval" where
  "call (JFun r) = Inr r"
| "call v = Inl TypeError"

text \<open>\<open>x.isSelected()\<close>.\<close>

definition isSelected :: "jsval \<Rightarrow> error + jsval" where
  "isSelected x = andThen (get_prop x ''isSelected'') call"

text \<open>Decimal property names of array and string indices.\<close>

fun show_nat :: "nat \<Rightarrow> string" where
  "show_nat n =
     (if n < 10 then [char_of (48 + n)]
      else show_nat (n div 10) @ [char_of (48 + n mod 10)])"

declare show_nat.simps [simp del]

text \<open>
  The own enumerable properties an object spread \<open>{...x}\<close> copies: those of an object,
  the indexed elements of an array or a string, none of any other value.
\<close>

fun spread :: "jsval \<Rightarrow> fields" where
  "spread (JObj fs) = fs"
| "spread (JArr xs) = zip (map show_nat [0 ..< length xs]) xs"
| "spread (JStr s) = zip (map show_nat [0 ..< length s]) (map (\<lambda>c. JStr [c]) s)"
| "spread v = []"

text \<open>\<open>{ ...option, url: undefined }\<close>.\<close>

definition clear_url :: "jsval \<Rightarrow> jsval" where
  "clear_url option = JObj (put ''url'' JUndefined (spread option))"

text \<open>
  The elements an argument spread \<open>f(...x)\<close> iterates: it throws on a value that is not
  iterable.
\<close>

fun iterate :: "jsval \<Rightarrow> error + jsval list" where
  "iterate (JArr xs) = Inr xs"
| "iterate (JStr s) = Inr (map (\<lambda>c. JStr [c]) s)"
| "iterate v = Inl TypeError"

text \<open>\<open>x + "suffix"\<close> and \<open>"prefix" + x\<close> for a primitive \<open>x\<close> that is not a number.\<close>

fun to_string :: "jsval \<Rightarrow> error + string" where
  "to_string (JStr s) = Inr s"
| "to_string JUndefined = Inr ''undefined''"
| "to_string JNull = Inr ''null''"
| "to_string (JBool b) = Inr (if b then ''true'' else ''false'')"
| "to_string v = Inl Unmodelled"

section \<open>React elements and default props\<close>

text \<open>
  A React element is an object with the component and the props. The component is
  written by its name. \<open>React.createElement(Component, config)\<close> fills every prop
  that is \<open>undefined\<close> in \<open>config\<close> from \<open>Component.defaultProps\<close>.
\<close>

fun resolveDefaultProps :: "fields \<Rightarrow> fields \<Rightarrow> fields" where
  "resolveDefaultProps [] props = props"
| "resolveDefaultProps ((k, v) # defaults) props =
     resolveDefaultProps defaults (if lookup props k = JUndefined then put k v props else props)"

definition createElement :: "string \<Rightarrow> fields \<Rightarrow> fields \<Rightarrow> jsval" where
  "createElement component defaultProps config =
     JObj [(''type'', JStr component), (''props'', JObj (resolveDefaultProps defaultProps config))]"

section \<open>The conversion rules\<close>

text \<open>
  Every component hands its props to \<open>toSlackElement(props, reconcile, promises)\<close>.
  \<open>reconcile\<close> resolves a nested element to a pair of the resolved value and its pending
  promises, or throws; \<open>promises\<close> is the collector the rule pushes to, returned updated.
\<close>

type_synonym promise = nat
type_synonym reconciler = "jsval \<Rightarrow> error + (jsval \<times> promise list)"
type_synonym rule = "fields \<Rightarrow> reconciler \<Rightarrow> promise list \<Rightarrow> error + (jsval \<times> promise list)"

subsection \<open>Text\<close>

definition Text_defaultProps :: fields where
  "Text_defaultProps = [(''type'', JStr ''plain_text'')]"

definition Text_toSlackElement :: "fields \<Rightarrow> jsval" where
  "Text_toSlackElement props =
     (let instance = [(''type'', lookup props ''type''), (''text'', JStr '''')] in
      if lookup props ''type'' = JStr ''mrkdwn''
      then JObj (put ''verbatim'' (lookup props ''verbatim'') instance)
      else if lookup props ''type'' = JStr ''plain_text''
      then JObj (put ''emoji'' (lookup props ''emoji'') instance)
      else JObj instance)"

text \<open>
  The component \<open>Text\<close> applied to the attributes \<open>config\<close> of a \<open>Text\<close> element: the
  rule sees the props with the defaults filled in.
\<close>

definition Text :: "fields \<Rightarrow> jsval" where
  "Text config = Text_toSlackElement (resolveDefaultProps Text_defaultProps config)"

subsection \<open>Button\<close>

definition Button_toSlackElement :: rule where
  "Button_toSlackElement props reconcile promises =
     (let instance =
        [(''type'', JStr ''button''),
         (''action_id'', lookup props ''action''),
         (''style'', lookup props ''style''),
         (''url'', lookup props ''url''),
         (''text'', JObj [(''type'', JStr ''plain_text''), (''text'', JStr ''''),
                          (''emoji'', lookup props ''emoji'')])]
      in andThen (reconcile (lookup props ''confirm'')) (\<lambda>(confirm, confirmPromises).
           Inr (JObj (put ''confirm'' confirm instance), promises @ confirmPromises)))"

subsection \<open>Section\<close>

text \<open>
  \<open>instance.text && text.type === "text"\<close>: the property is read only when the
  resolved text is truthy, so the read never throws.
\<close>

definition is_text_leaf :: "jsval \<Rightarrow> bool" where
  "is_text_leaf text = (truthy text \<and> get_prop text ''type'' = Inr (JStr ''text''))"

definition Section_toSlackElement :: rule where
  "Section_toSlackElement props reconcile promises =
     (let instance = [(''type'', JStr ''section'')] in
      andThen (reconcile (lookup props ''accessory'')) (\<lambda>(accessory, accessoryPromises).
      andThen (reconcile (lookup props ''text'')) (\<lambda>(text, textPromises).
      let instance = put ''text'' text instance;
          instance = put ''accessory'' accessory instance
      in andThen (if is_text_leaf text
                  then assign_in instance ''text'' ''type'' (JStr ''plain_text'')
                  else Inr instance) (\<lambda>instance.
           Inr (JObj instance, promises @ accessoryPromises @ textPromises)))))"

subsection \<open>Actions, Image, ImageBlock, Divider, Context, Message\<close>

definition Actions_toSlackElement :: jsval where
  "Actions_toSlackElement = JObj [(''type'', JStr ''actions''), (''elements'', JArr [])]"

definition Image_toSlackElement :: "fields \<Rightarrow> jsval" where
  "Image_toSlackElement props =
     JObj [(''type'', JStr ''image''),
           (''image_url'', lookup props ''imageUrl''),
           (''alt_text'', lookup props ''alt'')]"

definition ImageBlock_toSlackElement :: "fields \<Rightarrow> jsval" where
  "ImageBlock_toSlackElement props =
     (let instance =
        [(''type'', JStr ''image''),
         (''image_url'', lookup props ''imageUrl''),
         (''alt_text'', lookup props ''alt'')]
      in if truthy (lookup props ''title'')
         then JObj (put ''title''
                (JObj [(''type'', JStr ''plain_text''), (''text'', lookup props ''title''),
                       (''emoji'', lookup props ''emoji'')]) instance)
         else JObj instance)"

definition Divider_toSlackElement :: jsval where
  "Divider_toSlackElement = JObj [(''type'', JStr ''divider'')]"

definition Context_toSlackElement :: jsval where
  "Context_toSlackElement = JObj [(''type'', JStr ''context''), (''elements'', JArr [])]"

definition Message_toSlackElement :: "fields \<Rightarrow> jsval" where
  "Message_toSlackElement props = JObj [(''blocks'', JArr []), (''text'', lookup props ''text'')]"

subsection \<open>Confirm\<close>

definition Confirm_toSlackElement :: rule where
  "Confirm_toSlackElement props reconcile promises =
     (let instance = [(''isConfirm'', JFun (JBool True)), (''style'', lookup props ''style'')] in
      andThen (reconcile (lookup props ''title'')) (\<lambda>(title, titlePromises).
      andThen (reconcile (lookup props ''confirm'')) (\<lambda>(confirm, confirmPromises).
      andThen (reconcile (lookup props ''deny'')) (\<lambda>(deny, denyPromises).
      let instance = put ''title'' title instance;
          instance = put ''confirm'' confirm instance;
          instance = put ''deny'' deny instance
      in andThen (assign_in instance ''title'' ''type'' (JStr ''plain_text'')) (\<lambda>instance.
         andThen (assign_in instance ''confirm'' ''type'' (JStr ''plain_text'')) (\<lambda>instance.
         andThen (assign_in instance ''deny'' ''type'' (JStr ''plain_text'')) (\<lambda>instance.
           Inr (JObj instance,
                promises @ titlePromises @ confirmPromises @ denyPromises))))))))"

subsection \<open>Option\<close>

text \<open>
  \<open>if (instance.k) { instance.k.type = "plain_text"; }\<close>, the guarded coercion that
  Option, DatePicker, Modal, Input, TextField, OptionGroup, the select menus and Home
  apply to their text-bearing props.
\<close>

definition coerce_if_present :: "fields \<Rightarrow> string \<Rightarrow> error + fields" where
  "coerce_if_present instance k =
     (if truthy (lookup instance k)
      then assign_in instance k ''type'' (JStr ''plain_text'')
      else Inr instance)"

definition Option_toSlackElement :: rule where
  "Option_toSlackElement props reconcile promises =
     (let instance =
        [(''isSelected'', JFun (lookup props ''selected'')),
         (''isOption'', JFun (JBool True)),
         (''value'', lookup props ''value''),
         (''url'', lookup props ''url'')]
      in andThen (reconcile (lookup props ''description'')) (\<lambda>(description, descriptionPromises).
         let instance = put ''description'' description instance in
         andThen (coerce_if_present instance ''description'') (\<lambda>instance.
           Inr (JObj instance, promises @ descriptionPromises))))"

subsection \<open>DatePicker\<close>

definition DatePicker_toSlackElement :: rule where
  "DatePicker_toSlackElement props reconcile promises =
     (let instance =
        [(''type'', JStr ''datepicker''),
         (''initial_date'', lookup props ''initialDate''),
         (''action_id'', lookup props ''action'')]
      in andThen (reconcile (lookup props ''placeholder'')) (\<lambda>(placeholder, placeholderPromises).
         andThen (reconcile (lookup props ''confirm'')) (\<lambda>(confirm, confirmPromises).
         let instance = put ''placeholder'' placeholder instance;
             instance = put ''confirm'' confirm instance
         in andThen (coerce_if_present instance ''placeholder'') (\<lambda>instance.
              Inr (JObj instance, promises @ placeholderPromises @ confirmPromises)))))"

subsection \<open>Modal\<close>

definition Modal_toSlackElement :: rule where
  "Modal_toSlackElement props reconcile promises =
     (let instance = [(''type'', JStr ''modal''), (''blocks'', JArr [])] in
      andThen (reconcile (lookup props ''title'')) (\<lambda>(title, titlePromises).
      andThen (reconcile (lookup props ''submit'')) (\<lambda>(submit, submitPromises).
      andThen (reconcile (lookup props ''close'')) (\<lambda>(close, closePromises).
      let instance = put ''title'' title instance;
          instance = put ''submit'' submit instance;
          instance = put ''close'' close instance
      in andThen (coerce_if_present instance ''title'') (\<lambda>instance.
         andThen (coerce_if_present instance ''submit'') (\<lambda>instance.
         andThen (coerce_if_present instance ''close'') (\<lambda>instance.
           Inr (JObj instance,
                promises @ titlePromises @ submitPromises @ closePromises))))))))"

subsection \<open>Input\<close>

definition Input_toSlackElement :: rule where
  "Input_toSlackElement props reconcile promises =
     (let instance = [(''type'', JStr ''input''), (''optional'', lookup props ''optional'')] in
      andThen (reconcile (lookup props ''hint'')) (\<lambda>(hint, hintPromises).
      andThen (reconcile (lookup props ''label'')) (\<lambda>(label, labelPromises).
      let instance = put ''hint'' hint instance;
          instance = put ''label'' label instance
      in andThen (coerce_if_present instance ''label'') (\<lambda>instance.
         andThen (coerce_if_present instance ''hint'') (\<lambda>instance.
           Inr (JObj instance, promises @ hintPromises @ labelPromises))))))"

subsection \<open>TextField\<close>

definition TextField_toSlackElement :: rule where
  "TextField_toSlackElement props reconcile promises =
     (let instance =
        [(''type'', JStr ''plain_text_input''),
         (''initial_value'', lookup props ''initialValue''),
         (''action_id'', lookup props ''action''),
         (''max_length'', lookup props ''maxLength''),
         (''min_length'', lookup props ''minLength''),
         (''multiline'', lookup props ''multiline'')]
      in andThen (reconcile (lookup props ''placeholder'')) (\<lambda>(placeholder, placeholderPromises).
         let instance = put ''placeholder'' placeholder instance in
         andThen (coerce_if_present instance ''placeholder'') (\<lambda>instance.
           Inr (JObj instance, promises @ placeholderPromises))))"

subsection \<open>Selection extraction and option flattening\<close>

text \<open>\<open>options.filter(option => option.isSelected())\<close>.\<close>

fun filter_selected :: "jsval list \<Rightarrow> error + jsval list" where
  "filter_selected [] = Inr []"
| "filter_selected (option # options) =
     andThen (isSelected option) (\<lambda>selected.
     andThen (filter_selected options) (\<lambda>rest.
       Inr (if truthy selected then option # rest else rest)))"

text \<open>\<open>options.find(option => option.isSelected())\<close>: \<open>undefined\<close> when none matches.\<close>

fun find_selected :: "jsval list \<Rightarrow> error + jsval" where
  "find_selected [] = Inr JUndefined"
| "find_selected (option # options) =
     andThen (isSelected option) (\<lambda>selected.
       if truthy selected then Inr option else find_selected options)"

text \<open>
  \<open>optionsOrGroups.reduce((options, group) => { options.push(...group.options);
  return options; }, [])\<close>, with the accumulator as first argument.
\<close>

fun flatten_groups :: "jsval list \<Rightarrow> jsval list \<Rightarrow> error + jsval list" where
  "flatten_groups options [] = Inr options"
| "flatten_groups options (grp # groups) =
     andThen (get_prop grp ''options'') (\<lambda>own.
     andThen (iterate own) (\<lambda>pushed.
       flatten_groups (options @ pushed) groups))"

text \<open>
  The option list of a static menu:
  \<open>isGroup = Boolean(optionsOrGroups[0].isOptionGroup)\<close>, and the groups flattened when
  it holds. The rules run it on a non-empty list only; on an empty one
  \<open>optionsOrGroups[0]\<close> is \<open>undefined\<close> and the property read throws.
\<close>

fun flattened_options :: "jsval list \<Rightarrow> error + jsval list" where
  "flattened_options [] = Inl TypeError"
| "flattened_options (first # others) =
     andThen (get_prop first ''isOptionGroup'') (\<lambda>marker.
       if truthy marker then flatten_groups [] (first # others) else Inr (first # others))"

text \<open>The conversations filter: \<open>instance.filter = {}\<close> and its three assignments.\<close>

definition conversations_filter :: "jsval \<Rightarrow> error + jsval" where
  "conversations_filter flt =
     andThen (get_prop flt ''include'') (\<lambda>include.
     andThen (get_prop flt ''excludeExternalSharedChannels'') (\<lambda>shared.
     andThen (get_prop flt ''excludeBotUsers'') (\<lambda>bots.
       Inr (JObj [(''include'', include),
                  (''exclude_external_shared_channels'', shared),
                  (''exclude_bot_users'', bots)]))))"

subsection \<open>Checkboxes\<close>

text \<open>\<open>React.createElement(Section, { children: props.children })\<close>.\<close>

definition children_section :: "fields \<Rightarrow> jsval" where
  "children_section props = createElement ''Section'' [] [(''children'', lookup props ''children'')]"

definition Checkboxes_toSlackElement :: rule where
  "Checkboxes_toSlackElement props reconcile promises =
     (let instance =
        [(''type'', JStr ''checkboxes''),
         (''action_id'', lookup props ''action''),
         (''options'', JArr [])]
      in andThen (reconcile (children_section props)) (\<lambda>(section, optionPromises).
         andThen (get_prop section ''fields'') (\<lambda>options.
         andThen (reconcile (lookup props ''confirm'')) (\<lambda>(confirm, confirmPromises).
         andThen (case options of
                    JArr opts \<Rightarrow>
                      andThen (filter_selected opts) (\<lambda>selected.
                        let selectedOptions = map clear_url selected in
                        Inr (put ''initial_options''
                               (if selectedOptions \<noteq> [] then JArr selectedOptions else JUndefined)
                               instance))
                  | _ \<Rightarrow> Inr instance) (\<lambda>instance.
           Inr (JObj (put ''confirm'' confirm instance),
                promises @ optionPromises @ confirmPromises))))))"

subsection \<open>OverflowMenu\<close>

definition OverflowMenu_toSlackElement :: rule where
  "OverflowMenu_toSlackElement props reconcile promises =
     (let instance =
        [(''type'', JStr ''overflow''),
         (''action_id'', lookup props ''action''),
         (''options'', JArr [])]
      in andThen (reconcile (lookup props ''confirm'')) (\<lambda>(confirm, confirmPromises).
           Inr (JObj (put ''confirm'' confirm instance), promises @ confirmPromises)))"

subsection \<open>RadioButtons\<close>

definition RadioButtons_toSlackElement :: rule where
  "RadioButtons_toSlackElement props reconcile promises =
     (let instance =
        [(''type'', JStr ''radio_buttons''),
         (''action_id'', lookup props ''action''),
         (''options'', JArr [])]
      in andThen (reconcile (children_section props)) (\<lambda>(section, optionPromises).
         andThen (get_prop section ''fields'') (\<lambda>options.
         andThen (reconcile (lookup props ''confirm'')) (\<lambda>(confirm, confirmPromises).
         andThen (case options of
                    JArr opts \<Rightarrow>
                      andThen (find_selected (map clear_url opts)) (\<lambda>selectedOption.
                        Inr (put ''initial_option'' selectedOption instance))
                  | _ \<Rightarrow> Inr instance) (\<lambda>instance.
           Inr (JObj (put ''confirm'' confirm instance),
                promises @ optionPromises @ confirmPromises))))))"

subsection \<open>OptionGroup\<close>

definition OptionGroup_toSlackElement :: rule where
  "OptionGroup_toSlackElement props reconcile promises =
     (let instance = [(''isOptionGroup'', JFun (JBool True)), (''options'', JArr [])] in
      andThen (reconcile (lookup props ''label'')) (\<lambda>(label, labelPromises).
      let instance = put ''label'' label instance in
      andThen (coerce_if_present instance ''label'') (\<lambda>instance.
        Inr (JObj instance, promises @ labelPromises))))"

subsection \<open>SelectMenu\<close>

definition SelectMenu_defaultProps :: fields where
  "SelectMenu_defaultProps = [(''type'', JStr ''static'')]"

text \<open>
  The block under \<open>props.type === "static" && Array.isArray(optionsOrGroups) &&
  optionsOrGroups.length\<close> of SelectMenu.
\<close>

definition SelectMenu_static :: "fields \<Rightarrow> jsval \<Rightarrow> fields \<Rightarrow> error + fields" where
  "SelectMenu_static props optionsOrGroups instance =
     (case optionsOrGroups of
        JArr xs \<Rightarrow>
          if lookup props ''type'' = JStr ''static'' \<and> xs \<noteq> []
          then andThen (flattened_options xs) (\<lambda>options.
               andThen (find_selected (map clear_url options)) (\<lambda>selectedOption.
                 Inr (put ''initial_option'' selectedOption instance)))
          else Inr instance
      | _ \<Rightarrow> Inr instance)"

text \<open>The \<open>external\<close> block of SelectMenu.\<close>

definition SelectMenu_external :: "fields \<Rightarrow> jsval \<Rightarrow> fields \<Rightarrow> fields" where
  "SelectMenu_external props initialOption instance =
     (if lookup props ''type'' = JStr ''external''
      then put ''min_query_length'' (lookup props ''minQueryLength'')
             (if truthy initialOption
              then put ''initial_option'' (clear_url initialOption) instance
              else instance)
      else instance)"

text \<open>
  The \<open>users\<close>, \<open>channels\<close> and \<open>conversations\<close> blocks. The three parameters are the
  names of the prop read and of the field written, which differ between SelectMenu
  and MultiSelectMenu.
\<close>

definition menu_identifiers ::
  "string \<times> string \<Rightarrow> string \<times> string \<Rightarrow> string \<times> string \<Rightarrow> fields \<Rightarrow> fields \<Rightarrow> error + fields"
where
  "menu_identifiers users channels conversations props instance =
     (let instance =
        (if lookup props ''type'' = JStr ''users''
         then put (snd users) (lookup props (fst users)) instance else instance);
          instance =
        (if lookup props ''type'' = JStr ''channels''
         then put (snd channels) (lookup props (fst channels)) instance else instance)
      in if lookup props ''type'' = JStr ''conversations''
         then let instance = put (snd conversations) (lookup props (fst conversations)) instance
              in if truthy (lookup props ''filter'')
                 then andThen (conversations_filter (lookup props ''filter'')) (\<lambda>flt.
                        Inr (put ''filter'' flt instance))
                 else Inr instance
         else Inr instance)"

definition SelectMenu_toSlackElement :: rule where
  "SelectMenu_toSlackElement props reconcile promises =
     andThen (to_string (lookup props ''type'')) (\<lambda>variant.
     let instance =
       [(''type'', JStr (variant @ ''_select'')),
        (''action_id'', lookup props ''action''),
        (''onSearchOptions'', lookup props ''onSearchOptions'')]
     in andThen (reconcile (lookup props ''confirm'')) (\<lambda>(confirm, confirmPromises).
        andThen (reconcile (lookup props ''placeholder'')) (\<lambda>(placeholder, placeholderPromises).
        andThen (reconcile (children_section props)) (\<lambda>(section, optionPromises).
        andThen (get_prop section ''fields'') (\<lambda>optionsOrGroups.
        andThen (reconcile (lookup props ''initialOption'')) (\<lambda>(initialOption, initialOptionPromises).
        andThen (SelectMenu_static props optionsOrGroups instance) (\<lambda>instance.
        let instance = SelectMenu_external props initialOption instance in
        andThen (menu_identifiers (''initialUser'', ''initial_user'')
                   (''initialChannel'', ''initial_channel'')
                   (''initialConversation'', ''initial_conversation'') props instance) (\<lambda>instance.
        let instance = put ''confirm'' confirm instance;
            instance = put ''placeholder'' placeholder instance
        in andThen (coerce_if_present instance ''placeholder'') (\<lambda>instance.
             Inr (JObj instance,
                  promises @ confirmPromises @ placeholderPromises @ optionPromises
                    @ initialOptionPromises))))))))))"

subsection \<open>MultiSelectMenu\<close>

definition MultiSelectMenu_defaultProps :: fields where
  "MultiSelectMenu_defaultProps = [(''type'', JStr ''static'')]"

definition MultiSelectMenu_static :: "fields \<Rightarrow> jsval \<Rightarrow> fields \<Rightarrow> error + fields" where
  "MultiSelectMenu_static props optionsOrGroups instance =
     (case optionsOrGroups of
        JArr xs \<Rightarrow>
          if lookup props ''type'' = JStr ''static'' \<and> xs \<noteq> []
          then andThen (flattened_options xs) (\<lambda>options.
               andThen (filter_selected (map clear_url options)) (\<lambda>selectedOptions.
                 Inr (put ''initial_options'' (JArr selectedOptions) instance)))
          else Inr instance
      | _ \<Rightarrow> Inr instance)"

definition MultiSelectMenu_external :: "fields \<Rightarrow> jsval \<Rightarrow> fields \<Rightarrow> fields" where
  "MultiSelectMenu_external props initialOptions instance =
     (if lookup props ''type'' = JStr ''external''
      then put ''min_query_length'' (lookup props ''minQueryLength'')
             (put ''initial_options'' initialOptions instance)
      else instance)"

definition MultiSelectMenu_toSlackElement :: rule where
  "MultiSelectMenu_toSlackElement props reconcile promises =
     andThen (to_string (lookup props ''type'')) (\<lambda>variant.
     let instance =
       [(''type'', JStr (''multi_'' @ variant @ ''_select'')),
        (''action_id'', lookup props ''action''),
        (''max_selected_items'', lookup props ''maxSelectedItems''),
        (''onSearchOptions'', lookup props ''onSearchOptions'')]
     in andThen (reconcile (lookup props ''confirm'')) (\<lambda>(confirm, confirmPromises).
        andThen (reconcile (lookup props ''placeholder'')) (\<lambda>(placeholder, placeholderPromises).
        andThen (reconcile (children_section props)) (\<lambda>(section, optionPromises).
        andThen (get_prop section ''fields'') (\<lambda>optionsOrGroups.
        andThen (reconcile (children_section props)) (\<lambda>(section', initialOptionsPromises).
        andThen (get_prop section' ''fields'') (\<lambda>initialOptions.
        andThen (MultiSelectMenu_static props optionsOrGroups instance) (\<lambda>instance.
        let instance = MultiSelectMenu_external props initialOptions instance in
        andThen (menu_identifiers (''initialUsers'', ''initial_users'')
                   (''initialChannels'', ''initial_channels'')
                   (''initialConversations'', ''initial_conversations'') props instance) (\<lambda>instance.
        let instance = put ''confirm'' confirm instance;
            instance = put ''placeholder'' placeholder instance
        in andThen (coerce_if_present instance ''placeholder'') (\<lambda>instance.
             Inr (JObj instance,
                  promises @ confirmPromises @ placeholderPromises @ optionPromises
                    @ initialOptionsPromises)))))))))))"

subsection \<open>Home\<close>

definition Home_toSlackElement :: rule where
  "Home_toSlackElement props reconcile promises =
     (let instance = [(''type'', JStr ''home''), (''blocks'', JArr [])] in
      andThen (reconcile (lookup props ''title'')) (\<lambda>(title, titlePromises).
      let instance = put ''title'' title instance in
      andThen (coerce_if_present instance ''title'') (\<lambda>instance.
        Inr (JObj instance, promises @ titlePromises))))"

section \<open>The reconciliation engine\<close>

text \<open>
  Modelled from the spec: the reconciliation engine, that is the function \<open>reconcile\<close>
  every conversion rule is handed. Its code is not part of \<open>components.tsx\<close>. The spec
  (4.2) gives its contract: \<open>undefined\<close> resolves to \<open>undefined\<close> with no pending work;
  a bare string is an implicit text leaf; for a node the engine invokes the node's own
  conversion rule, with a \<open>reconcile\<close> callback bound to the engine itself and a list for
  the pending resolutions. The resolved children are placed where the spec (4.1, 4.2)
  and the rules say: the blocks of the root kinds and the elements of Actions and
  Context (children that resolve to \<open>undefined\<close> skipped), the options of an
  OptionGroup, the fields of a Section (the property Checkboxes, RadioButtons and the
  select menus read from it), and the text of a Text node and of a Button (built from
  their string children). The theorems on the conversion rules below hold for every
  \<open>reconcile\<close>; this model supplies a concrete one for the example trees. The depth
  of the tree bounds the fuel it needs.
\<close>

text \<open>
  Modelled from the spec: the implicit text leaf a bare string resolves to (4.2). Its
  generic type \<open>text\<close> is the one Section's rule tests for.
\<close>

definition text_leaf :: "string \<Rightarrow> jsval" where
  "text_leaf s = JObj [(''type'', JStr ''text''), (''text'', JStr s)]"

text \<open>
  Modelled from the spec: the engine invokes the node's own conversion rule (4.2). Here
  the rule of a component is found by the component's name.
\<close>

definition toSlackElement :: "string \<Rightarrow> rule" where
  "toSlackElement component props reconcile promises =
     (if component = ''Text'' then Inr (Text_toSlackElement props, promises)
      else if component = ''Button'' then Button_toSlackElement props reconcile promises
      else if component = ''Section'' then Section_toSlackElement props reconcile promises
      else if component = ''Actions'' then Inr (Actions_toSlackElement, promises)
      else if component = ''Image'' then Inr (Image_toSlackElement props, promises)
      else if component = ''ImageBlock'' then Inr (ImageBlock_toSlackElement props, promises)
      else if component = ''Divider'' then Inr (Divider_toSlackElement, promises)
      else if component = ''Context'' then Inr (Context_toSlackElement, promises)
      else if component = ''Confirm'' then Confirm_toSlackElement props reconcile promises
      else if component = ''Option'' then Option_toSlackElement props reconcile promises
      else if component = ''DatePicker'' then DatePicker_toSlackElement props reconcile promises
      else if component = ''Message'' then Inr (Message_toSlackElement props, promises)
      else if component = ''Modal'' then Modal_toSlackElement props reconcile promises
      else if component = ''Input'' then Input_toSlackElement props reconcile promises
      else if component = ''TextField'' then TextField_toSlackElement props reconcile promises
      else if component = ''Checkboxes'' then Checkboxes_toSlackElement props reconcile promises
      else if component = ''OverflowMenu'' then OverflowMenu_toSlackElement props reconcile promises
      else if component = ''RadioButtons'' then RadioButtons_toSlackElement props reconcile promises
      else if component = ''OptionGroup'' then OptionGroup_toSlackElement props reconcile promises
      else if component = ''SelectMenu'' then SelectMenu_toSlackElement props reconcile promises
      else if component = ''MultiSelectMenu''
      then MultiSelectMenu_toSlackElement props reconcile promises
      else if component = ''Home'' then Home_toSlackElement props reconcile promises
      else Inl Unmodelled)"

text \<open>
  Modelled from the spec: the children of a node (one child, a list of children, or
  none), resolved in their order.
\<close>

fun children_of :: "jsval \<Rightarrow> jsval list" where
  "children_of JUndefined = []"
| "children_of (JArr xs) = xs"
| "children_of x = [x]"

fun resolve_all :: "reconciler \<Rightarrow> jsval list \<Rightarrow> error + (jsval list \<times> promise list)" where
  "resolve_all reconcile [] = Inr ([], [])"
| "resolve_all reconcile (x # xs) =
     andThen (reconcile x) (\<lambda>(v, ps).
     andThen (resolve_all reconcile xs) (\<lambda>(vs, qs). Inr (v # vs, ps @ qs)))"

text \<open>Modelled from the spec: the text of the string children of a Text node.\<close>

fun text_of :: "jsval list \<Rightarrow> string" where
  "text_of [] = []"
| "text_of (JStr s # xs) = s @ text_of xs"
| "text_of (x # xs) = text_of xs"

text \<open>
  Modelled from the spec: where the resolved children of a node go (4.1, 4.2), children
  that resolved to \<open>undefined\<close> skipped.
\<close>

definition attach_children :: "string \<Rightarrow> jsval list \<Rightarrow> jsval list \<Rightarrow> fields \<Rightarrow> fields" where
  "attach_children component children resolved instance =
     (let present = filter (\<lambda>v. v \<noteq> JUndefined) resolved in
      if component \<in> {''Message'', ''Modal'', ''Home''} then put ''blocks'' (JArr present) instance
      else if component \<in> {''Actions'', ''Context''} then put ''elements'' (JArr present) instance
      else if component = ''OptionGroup'' then put ''options'' (JArr present) instance
      else if component = ''Section'' \<and> present \<noteq> [] then put ''fields'' (JArr present) instance
      else if component = ''Text'' then put ''text'' (JStr (text_of children)) instance
      else if component = ''Button''
      then put ''text'' (JObj (put ''text'' (JStr (text_of children))
                                (spread (lookup instance ''text'')))) instance
      else instance)"

text \<open>
  Modelled from the spec: \<open>resolve(node)\<close>, the engine itself (4.2), with the depth of
  the tree as fuel.
\<close>

primrec resolve :: "nat \<Rightarrow> reconciler" where
  "resolve 0 = (\<lambda>element. Inl OutOfFuel)"
| "resolve (Suc fuel) = (\<lambda>element.
     case element of
       JUndefined \<Rightarrow> Inr (JUndefined, [])
     | JStr s \<Rightarrow> Inr (text_leaf s, [])
     | JObj el \<Rightarrow>
         (case (lookup el ''type'', lookup el ''props'') of
            (JStr component, JObj props) \<Rightarrow>
              andThen (toSlackElement component props (resolve fuel) []) (\<lambda>(instance, promises).
              let children =
                (if component \<in> {''Text'', ''Button''} then []
                 else children_of (lookup props ''children''))
              in andThen (resolve_all (resolve fuel) children) (\<lambda>(resolved, childPromises).
                Inr (JObj (attach_children component (children_of (lookup props ''children''))
                             resolved (spread instance)),
                     promises @ childPromises)))
          | _ \<Rightarrow> Inl Unmodelled)
     | _ \<Rightarrow> Inl Unmodelled)"

section \<open>Observing the output\<close>

text \<open>\<open>x\<close> is an object with an own property \<open>k\<close> (whatever its value).\<close>

definition carries :: "jsval \<Rightarrow> string \<Rightarrow> bool" where
  "carries x k = (case x of JObj fs \<Rightarrow> has_field fs k | _ \<Rightarrow> False)"

text \<open>
  The text-bearing props of the composite nodes: each conversion rule with the name of
  a prop it resolves and coerces (Confirm's \<open>title\<close>, \<open>confirm\<close> and \<open>deny\<close> are the
  \<open>confirm.title\<close>, \<open>confirm.confirm\<close> and \<open>confirm.deny\<close> of a node with a confirm
  dialog). The field of the output has the name of the prop.
\<close>

definition text_bearing_props :: "(rule \<times> string) set" where
  "text_bearing_props =
     {(Modal_toSlackElement, ''title''), (Modal_toSlackElement, ''submit''),
      (Modal_toSlackElement, ''close''), (Home_toSlackElement, ''title''),
      (Input_toSlackElement, ''label''), (Input_toSlackElement, ''hint''),
      (TextField_toSlackElement, ''placeholder''), (DatePicker_toSlackElement, ''placeholder''),
      (SelectMenu_toSlackElement, ''placeholder''),
      (MultiSelectMenu_toSlackElement, ''placeholder''),
      (OptionGroup_toSlackElement, ''label''),
      (Confirm_toSlackElement, ''title''), (Confirm_toSlackElement, ''confirm''),
      (Confirm_toSlackElement, ''deny'')}"

text \<open>
  A rule \<open>R\<close> forces the kind of the prop \<open>k\<close>: whenever \<open>R\<close> produces an output and
  the prop resolved to a value, that value is an object and the output holds it under
  \<open>k\<close> with its \<open>type\<close> overwritten by \<open>plain_text\<close>.
\<close>

definition coerces_to_plain_text :: "rule \<Rightarrow> string \<Rightarrow> bool" where
  "coerces_to_plain_text R k =
     (\<forall>props reconcile promises out ps v vps.
        R props reconcile promises = Inr (out, ps) \<and>
        reconcile (lookup props k) = Inr (v, vps) \<and> truthy v \<longrightarrow>
        (\<exists>fs. v = JObj fs \<and>
              get_prop out k = Inr (JObj (put ''type'' (JStr ''plain_text'') fs))))"

text \<open>
  What a rule's coercion leaves of a resolved value: an object with its \<open>type\<close>
  overwritten, any other value as it is.
\<close>

definition as_plain_text :: "jsval \<Rightarrow> jsval" where
  "as_plain_text v =
     (case v of JObj fs \<Rightarrow> JObj (put ''type'' (JStr ''plain_text'') fs) | _ \<Rightarrow> v)"

text \<open>
  The values the engine hands back for a prop: \<open>undefined\<close> for an absent prop, an
  instance object for a node.
\<close>

definition resolved_value :: "jsval \<Rightarrow> bool" where
  "resolved_value v = (case v of JUndefined \<Rightarrow> True | JObj fs \<Rightarrow> True | _ \<Rightarrow> False)"

text \<open>The declared variants of the \<open>type\<close> tag of SelectMenu and MultiSelectMenu.\<close>

definition variants :: "string set" where
  "variants = {''static'', ''users'', ''channels'', ''external'', ''conversations''}"

text \<open>
  A resolved Option, as Option's rule builds it: an object whose \<open>isSelected\<close> is a
  function and that has no truthy \<open>isOptionGroup\<close>. Its selected predicate is the
  truthiness of what \<open>isSelected()\<close> returns.
\<close>

definition is_option :: "jsval \<Rightarrow> bool" where
  "is_option x =
     (case x of
        JObj fs \<Rightarrow>
          (case lookup fs ''isSelected'' of JFun r \<Rightarrow> True | _ \<Rightarrow> False)
          \<and> \<not> truthy (lookup fs ''isOptionGroup'')
      | _ \<Rightarrow> False)"

definition marked_selected :: "jsval \<Rightarrow> bool" where
  "marked_selected x =
     (case x of
        JObj fs \<Rightarrow> (case lookup fs ''isSelected'' of JFun r \<Rightarrow> truthy r | _ \<Rightarrow> False)
      | _ \<Rightarrow> False)"

text \<open>
  A resolved OptionGroup, as OptionGroup's rule and the engine build it: an object with a
  truthy \<open>isOptionGroup\<close> whose \<open>options\<close> is an array. \<open>group_options\<close> are its own
  options.
\<close>

definition is_option_group :: "jsval \<Rightarrow> bool" where
  "is_option_group x =
     (case x of
        JObj fs \<Rightarrow>
          truthy (lookup fs ''isOptionGroup'')
          \<and> (case lookup fs ''options'' of JArr os \<Rightarrow> True | _ \<Rightarrow> False)
      | _ \<Rightarrow> False)"

definition group_options :: "jsval \<Rightarrow> jsval list" where
  "group_options x =
     (case x of
        JObj fs \<Rightarrow> (case lookup fs ''options'' of JArr os \<Rightarrow> os | _ \<Rightarrow> [])
      | _ \<Rightarrow> [])"

text \<open>The first option marked selected, with its \<open>url\<close> cleared; \<open>undefined\<close> if none is.\<close>

definition first_selected :: "jsval list \<Rightarrow> jsval" where
  "first_selected options =
     (case find marked_selected options of None \<Rightarrow> JUndefined | Some x \<Rightarrow> clear_url x)"

text \<open>The options marked selected, in their order, each with its \<open>url\<close> cleared.\<close>

definition all_selected :: "jsval list \<Rightarrow> jsval list" where
  "all_selected options = map clear_url (filter marked_selected options)"

text \<open>
  A value free of functions, at any depth: what JSON serialisation keeps of a value
  without dropping a field.
\<close>

fun function_free :: "jsval \<Rightarrow> bool" where
  "function_free (JFun r) = False"
| "function_free (JArr xs) = list_all function_free xs"
| "function_free (JObj fs) = list_all (\<lambda>p. function_free (snd p)) fs"
| "function_free v = True"

text \<open>
  The own properties of an object that \<open>JSON.stringify\<close> writes: it skips a property
  whose value is \<open>undefined\<close> or a function.
\<close>

definition json_fields :: "fields \<Rightarrow> fields" where
  "json_fields fs =
     filter (\<lambda>(k, v). v \<noteq> JUndefined \<and> (case v of JFun r \<Rightarrow> False | _ \<Rightarrow> True)) fs"

section \<open>Example trees\<close>

text \<open>\<open><Text type="mrkdwn">Hello</Text>\<close>, a Text node that declares the markdown kind.\<close>

definition markdown_hello :: jsval where
  "markdown_hello =
     createElement ''Text'' Text_defaultProps [(''type'', JStr ''mrkdwn''), (''children'', JStr ''Hello'')]"

text \<open>
  What the engine resolves \<open>markdown_hello\<close> to, and the same with another kind; the props
  of a node that holds \<open>markdown_hello\<close> in each text-bearing prop but \<open>close\<close>, and those
  of a Confirm node that holds it in all three.
\<close>

definition resolved_hello :: "string \<Rightarrow> jsval" where
  "resolved_hello kind =
     JObj [(''type'', JStr kind), (''text'', JStr ''Hello''), (''verbatim'', JUndefined)]"

definition hello_props :: fields where
  "hello_props =
     [(''type'', JStr ''static''), (''action'', JStr ''fruit''),
      (''title'', markdown_hello), (''submit'', markdown_hello),
      (''label'', markdown_hello), (''hint'', markdown_hello),
      (''placeholder'', markdown_hello)]"

definition hello_dialog :: fields where
  "hello_dialog =
     [(''title'', markdown_hello), (''confirm'', markdown_hello), (''deny'', markdown_hello)]"

text \<open>
  Three Option nodes, each with a \<open>url\<close>; the second and the third are marked selected.
\<close>

definition option_node :: "string \<Rightarrow> jsval \<Rightarrow> jsval" where
  "option_node v selected =
     createElement ''Option'' []
       [(''value'', JStr v), (''url'', JStr ''https://example.com''), (''selected'', selected),
        (''children'', JStr v)]"

definition apple :: jsval where "apple = option_node ''apple'' JUndefined"
definition pear :: jsval where "pear = option_node ''pear'' (JBool True)"
definition plum :: jsval where "plum = option_node ''plum'' (JBool True)"

text \<open>Two OptionGroup nodes with two and one of these options.\<close>

definition pome_group :: jsval where
  "pome_group =
     createElement ''OptionGroup'' [] [(''label'', JStr ''Pome''), (''children'', JArr [apple, pear])]"

definition stone_group :: jsval where
  "stone_group =
     createElement ''OptionGroup'' [] [(''label'', JStr ''Stone''), (''children'', plum)]"

text \<open>The props of a menu (or of Checkboxes, RadioButtons) over the two groups.\<close>

definition grouped_menu :: fields where
  "grouped_menu =
     [(''type'', JStr ''static''), (''action'', JStr ''fruit''), (''placeholder'', JStr ''Pick''),
      (''children'', JArr [pome_group, stone_group])]"

text \<open>The same over the three options, not grouped.\<close>

definition flat_menu :: fields where
  "flat_menu =
     [(''type'', JStr ''static''), (''action'', JStr ''fruit''), (''placeholder'', JStr ''Pick''),
      (''children'', JArr [apple, pear, plum])]"

text \<open>The three options and the two groups as the engine resolves them.\<close>

definition resolved_option :: "string \<Rightarrow> jsval \<Rightarrow> jsval" where
  "resolved_option v selected =
     JObj [(''isSelected'', JFun selected), (''isOption'', JFun (JBool True)),
           (''value'', JStr v), (''url'', JStr ''https://example.com''),
           (''description'', JUndefined)]"

definition resolved_groups :: "jsval list" where
  "resolved_groups =
     [JObj [(''isOptionGroup'', JFun (JBool True)),
            (''options'', JArr [resolved_option ''apple'' JUndefined,
                                resolved_option ''pear'' (JBool True)]),
            (''label'', JObj [(''type'', JStr ''plain_text''), (''text'', JStr ''Pome'')])],
      JObj [(''isOptionGroup'', JFun (JBool True)),
            (''options'', JArr [resolved_option ''plum'' (JBool True)]),
            (''label'', JObj [(''type'', JStr ''plain_text''), (''text'', JStr ''Stone'')])]]"

definition resolved_options :: "jsval list" where
  "resolved_options =
     [resolved_option ''apple'' JUndefined, resolved_option ''pear'' (JBool True),
      resolved_option ''plum'' (JBool True)]"

text \<open>The Section that collects the children, as the engine resolves it.\<close>

definition resolved_section :: "jsval list \<Rightarrow> fields" where
  "resolved_section children =
     [(''type'', JStr ''section''), (''text'', JUndefined), (''accessory'', JUndefined),
      (''fields'', JArr children)]"


text \<open>
  The props of an external menu with both \<open>initialOption\<close> and \<open>initialOptions\<close> set
  and no children. The search callback is a function.
\<close>

definition external_menu :: fields where
  "external_menu =
     [(''type'', JStr ''external''), (''action'', JStr ''fruit''), (''placeholder'', JStr ''Pick''),
      (''initialOption'', pear), (''initialOptions'', JArr [pear, plum]),
      (''minQueryLength'', JNum 2), (''onSearchOptions'', JFun (JArr []))]"

text \<open>
  A root Message with one Section, whose accessory is a Button with a confirm dialog, and
  the Document the engine resolves it to.
\<close>

definition confirm_message :: jsval where
  "confirm_message =
     createElement ''Message'' []
       [(''children'',
         createElement ''Section'' []
           [(''text'', JStr ''Delete the file?''),
            (''accessory'',
             createElement ''Button'' []
               [(''action'', JStr ''delete''), (''children'', JStr ''Delete''),
                (''confirm'',
                 createElement ''Confirm'' []
                   [(''title'', JStr ''Sure?''), (''confirm'', JStr ''Yes''),
                    (''deny'', JStr ''No'')])])])]"

definition confirm_dialog :: jsval where
  "confirm_dialog =
     JObj [(''isConfirm'', JFun (JBool True)), (''style'', JUndefined),
           (''title'', JObj [(''type'', JStr ''plain_text''), (''text'', JStr ''Sure?'')]),
           (''confirm'', JObj [(''type'', JStr ''plain_text''), (''text'', JStr ''Yes'')]),
           (''deny'', JObj [(''type'', JStr ''plain_text''), (''text'', JStr ''No'')])]"

definition confirm_document :: jsval where
  "confirm_document =
     JObj [(''blocks'',
            JArr [JObj [(''type'', JStr ''section''),
                        (''text'', JObj [(''type'', JStr ''plain_text''),
                                         (''text'', JStr ''Delete the file?'')]),
                        (''accessory'',
                         JObj [(''type'', JStr ''button''), (''action_id'', JStr ''delete''),
                               (''style'', JUndefined), (''url'', JUndefined),
                               (''text'', JObj [(''type'', JStr ''plain_text''),
                                                (''text'', JStr ''Delete''),
                                                (''emoji'', JUndefined)]),
                               (''confirm'', confirm_dialog)])]]),
           (''text'', JUndefined)]"

section \<open>Properties of the helpers\<close>

lemma lookup_put: "lookup (put k v fs) k' = (if k = k' then v else lookup fs k')"
  by (induction fs) auto

lemma keys_put: "map fst (put k v fs) = (if k \<in> set (map fst fs) then map fst fs else map fst fs @ [k])"
proof (induction fs)
  case Nil
  show ?case by simp
next
  case (Cons a fs)
  obtain k' v' where a: "a = (k', v')" by (cases a)
  show ?case using Cons by (cases "k' = k") (simp_all add: a)
qed

lemma has_field_put: "has_field (put k v fs) k' = (k = k' \<or> has_field fs k')"
  unfolding has_field_def keys_put by auto

lemma andThen_simps [simp]: "andThen (Inl e) f = Inl e" "andThen (Inr x) f = f x"
  by (simp_all add: andThen_def)

lemma andThenE:
  "andThen m f = Inr y \<Longrightarrow> (\<And>x. m = Inr x \<Longrightarrow> f x = Inr y \<Longrightarrow> P) \<Longrightarrow> P"
  by (cases m) simp_all

lemma assign_Inr: "assign x k v = Inr y \<longleftrightarrow> (\<exists>fs. x = JObj fs \<and> y = JObj (put k v fs))"
  by (cases x) auto

lemma assign_in_Inr:
  "assign_in inst k1 k2 v = Inr inst' \<longleftrightarrow>
     (\<exists>fs. lookup inst k1 = JObj fs \<and> inst' = put k1 (JObj (put k2 v fs)) inst)"
  by (auto simp: assign_in_def assign_Inr elim!: andThenE)

lemma coerce_if_present_Inr:
  "coerce_if_present inst k = Inr inst' \<longleftrightarrow>
     (if truthy (lookup inst k)
      then \<exists>fs. lookup inst k = JObj fs \<and>
                inst' = put k (JObj (put ''type'' (JStr ''plain_text'') fs)) inst
      else inst' = inst)"
  by (auto simp: coerce_if_present_def assign_in_Inr)

lemma Text_defaults_type:
  "lookup (resolveDefaultProps Text_defaultProps config) ''type'' =
     (if lookup config ''type'' = JUndefined then JStr ''plain_text'' else lookup config ''type'')"
  by (simp add: Text_defaultProps_def lookup_put)

lemma Text_defaults_other:
  "k \<noteq> ''type'' \<Longrightarrow> lookup (resolveDefaultProps Text_defaultProps config) k = lookup config k"
  by (simp add: Text_defaultProps_def lookup_put)

lemma resolved_value_simps: "resolved_value JUndefined" "resolved_value (JObj fs)"
  by (simp_all add: resolved_value_def)

lemma as_plain_text_undefined [simp]: "as_plain_text JUndefined = JUndefined"
  by (simp add: as_plain_text_def)

lemma assign_in_resolved:
  "resolved_value (lookup inst k) \<Longrightarrow>
   assign_in inst k ''type'' (JStr ''plain_text'') =
     (if lookup inst k = JUndefined then Inl TypeError
      else Inr (put k (as_plain_text (lookup inst k)) inst))"
  by (cases "lookup inst k") (simp_all add: assign_in_def resolved_value_def as_plain_text_def)

lemma coerce_if_present_resolved:
  "resolved_value (lookup inst k) \<Longrightarrow>
   coerce_if_present inst k =
     Inr (if lookup inst k = JUndefined then inst else put k (as_plain_text (lookup inst k)) inst)"
  by (cases "lookup inst k")
    (simp_all add: coerce_if_present_def assign_in_def resolved_value_def as_plain_text_def)

lemma put_put: "put k v (put k v' fs) = put k v fs"
  by (induction fs) auto

lemma as_plain_text_type:
  "resolved_value v \<Longrightarrow> v \<noteq> JUndefined \<Longrightarrow>
   get_prop (as_plain_text v) ''type'' = Inr (JStr ''plain_text'')"
  by (cases v) (simp_all add: resolved_value_def as_plain_text_def lookup_put)

lemma as_plain_text_other:
  "resolved_value v \<Longrightarrow> v \<noteq> JUndefined \<Longrightarrow>
   \<forall>k. k \<noteq> ''type'' \<longrightarrow> get_prop (as_plain_text v) k = get_prop v k"
  by (cases v) (simp_all add: resolved_value_def as_plain_text_def lookup_put)

lemma coerce_put_resolved:
  "resolved_value v \<Longrightarrow> coerce_if_present (put k v fs) k = Inr (put k (as_plain_text v) fs)"
  by (cases "v = JUndefined") (simp_all add: coerce_if_present_resolved lookup_put put_put)

lemma conversations_filter_total:
  "truthy flt \<Longrightarrow> \<exists>f. conversations_filter flt = Inr f"
  by (cases flt) (simp_all add: conversations_filter_def)

lemma menu_identifiers_total:
  "\<exists>finished. menu_identifiers u c v props inst = Inr finished"
proof (cases "lookup props ''type'' = JStr ''conversations'' \<and> truthy (lookup props ''filter'')")
  case True
  then obtain f where "conversations_filter (lookup props ''filter'') = Inr f"
    using conversations_filter_total by blast
  with True show ?thesis by (simp add: menu_identifiers_def Let_def)
next
  case False
  then show ?thesis by (auto simp: menu_identifiers_def Let_def)
qed

lemma is_text_leaf_iff: "is_text_leaf v \<longleftrightarrow> get_prop v ''type'' = Inr (JStr ''text'')"
  by (cases v) (auto simp: is_text_leaf_def)

lemma is_text_leaf_obj: "is_text_leaf v \<Longrightarrow> \<exists>fs. v = JObj fs"
  by (cases v) (auto simp: is_text_leaf_def)

lemma menu_identifiers_unknown:
  "lookup props ''type'' = JStr tag \<Longrightarrow> tag \<notin> variants \<Longrightarrow>
   menu_identifiers u c v props instance = Inr instance"
  by (auto simp: menu_identifiers_def variants_def)

section \<open>Text\<close>

text \<open>
  C7. For every Text node the kind is \<open>plain_text\<close> when the \<open>type\<close> attribute is not
  given, and the given one otherwise. The output carries the \<open>verbatim\<close> field exactly
  when its kind is \<open>mrkdwn\<close>, with the value of the \<open>verbatim\<close> attribute, and the
  \<open>emoji\<close> field exactly when its kind is \<open>plain_text\<close>, with the value of the \<open>emoji\<close>
  attribute.
\<close>

theorem Text_kind_and_fields:
  "(lookup config ''type'' = JUndefined \<longrightarrow>
      get_prop (Text config) ''type'' = Inr (JStr ''plain_text''))
   \<and> (lookup config ''type'' \<noteq> JUndefined \<longrightarrow>
      get_prop (Text config) ''type'' = Inr (lookup config ''type''))
   \<and> (carries (Text config) ''verbatim'' \<longleftrightarrow>
      get_prop (Text config) ''type'' = Inr (JStr ''mrkdwn''))
   \<and> (carries (Text config) ''emoji'' \<longleftrightarrow>
      get_prop (Text config) ''type'' = Inr (JStr ''plain_text''))
   \<and> (get_prop (Text config) ''type'' = Inr (JStr ''mrkdwn'') \<longrightarrow>
      get_prop (Text config) ''verbatim'' = Inr (lookup config ''verbatim''))
   \<and> (get_prop (Text config) ''type'' = Inr (JStr ''plain_text'') \<longrightarrow>
      get_prop (Text config) ''emoji'' = Inr (lookup config ''emoji''))"
  unfolding Text_def
  by (simp add: Text_toSlackElement_def Text_defaults_type Text_defaults_other carries_def
      has_field_def lookup_put Let_def)

theorem Text_kind_and_fields_witness:
  "get_prop (Text [(''children'', JStr ''hi'')]) ''type'' = Inr (JStr ''plain_text'')
   \<and> carries (Text [(''children'', JStr ''hi'')]) ''emoji''
   \<and> \<not> carries (Text [(''children'', JStr ''hi'')]) ''verbatim''
   \<and> get_prop (Text [(''type'', JStr ''mrkdwn''), (''verbatim'', JBool True), (''emoji'', JBool True)])
         ''type'' = Inr (JStr ''mrkdwn'')
   \<and> carries (Text [(''type'', JStr ''mrkdwn''), (''verbatim'', JBool True), (''emoji'', JBool True)])
         ''verbatim''
   \<and> \<not> carries (Text [(''type'', JStr ''mrkdwn''), (''verbatim'', JBool True), (''emoji'', JBool True)])
         ''emoji''
   \<and> get_prop (Text [(''type'', JStr ''mrkdwn''), (''verbatim'', JBool True), (''emoji'', JBool True)])
         ''verbatim'' = Inr (JBool True)"
  using Text_kind_and_fields [of "[(''children'', JStr ''hi'')]"]
    Text_kind_and_fields
      [of "[(''type'', JStr ''mrkdwn''), (''verbatim'', JBool True), (''emoji'', JBool True)]"]
  by simp

section \<open>Text-kind coercion\<close>

lemma Modal_coerces_title: "coerces_to_plain_text Modal_toSlackElement ''title''"
  unfolding coerces_to_plain_text_def Modal_toSlackElement_def Let_def
  apply (intro allI impI)
  apply (elim conjE)
  apply ((erule andThenE, (clarsimp simp: coerce_if_present_Inr lookup_put split: if_splits)?)+)
  done

lemma Modal_coerces_submit: "coerces_to_plain_text Modal_toSlackElement ''submit''"
  unfolding coerces_to_plain_text_def Modal_toSlackElement_def Let_def
  apply (intro allI impI)
  apply (elim conjE)
  apply ((erule andThenE, (clarsimp simp: coerce_if_present_Inr lookup_put split: if_splits)?)+)
  done

lemma Modal_coerces_close: "coerces_to_plain_text Modal_toSlackElement ''close''"
  unfolding coerces_to_plain_text_def Modal_toSlackElement_def Let_def
  apply (intro allI impI)
  apply (elim conjE)
  apply ((erule andThenE, (clarsimp simp: coerce_if_present_Inr lookup_put split: if_splits)?)+)
  done

lemma Home_coerces_title: "coerces_to_plain_text Home_toSlackElement ''title''"
  unfolding coerces_to_plain_text_def Home_toSlackElement_def Let_def
  apply (intro allI impI)
  apply (elim conjE)
  apply ((erule andThenE, (clarsimp simp: coerce_if_present_Inr lookup_put split: if_splits)?)+)
  done

lemma Input_coerces_label: "coerces_to_plain_text Input_toSlackElement ''label''"
  unfolding coerces_to_plain_text_def Input_toSlackElement_def Let_def
  apply (intro allI impI)
  apply (elim conjE)
  apply ((erule andThenE, (clarsimp simp: coerce_if_present_Inr lookup_put split: if_splits)?)+)
  done

lemma Input_coerces_hint: "coerces_to_plain_text Input_toSlackElement ''hint''"
  unfolding coerces_to_plain_text_def Input_toSlackElement_def Let_def
  apply (intro allI impI)
  apply (elim conjE)
  apply ((erule andThenE, (clarsimp simp: coerce_if_present_Inr lookup_put split: if_splits)?)+)
  done

lemma TextField_coerces_placeholder: "coerces_to_plain_text TextField_toSlackElement ''placeholder''"
  unfolding coerces_to_plain_text_def TextField_toSlackElement_def Let_def
  apply (intro allI impI)
  apply (elim conjE)
  apply ((erule andThenE, (clarsimp simp: coerce_if_present_Inr lookup_put split: if_splits)?)+)
  done

lemma DatePicker_coerces_placeholder: "coerces_to_plain_text DatePicker_toSlackElement ''placeholder''"
  unfolding coerces_to_plain_text_def DatePicker_toSlackElement_def Let_def
  apply (intro allI impI)
  apply (elim conjE)
  apply ((erule andThenE, (clarsimp simp: coerce_if_present_Inr lookup_put split: if_splits)?)+)
  done

lemma SelectMenu_coerces_placeholder: "coerces_to_plain_text SelectMenu_toSlackElement ''placeholder''"
  unfolding coerces_to_plain_text_def SelectMenu_toSlackElement_def Let_def
  apply (intro allI impI)
  apply (elim conjE)
  apply ((erule andThenE, (clarsimp simp: coerce_if_present_Inr lookup_put split: if_splits)?)+)
  done

lemma MultiSelectMenu_coerces_placeholder: "coerces_to_plain_text MultiSelectMenu_toSlackElement ''placeholder''"
  unfolding coerces_to_plain_text_def MultiSelectMenu_toSlackElement_def Let_def
  apply (intro allI impI)
  apply (elim conjE)
  apply ((erule andThenE, (clarsimp simp: coerce_if_present_Inr lookup_put split: if_splits)?)+)
  done

lemma OptionGroup_coerces_label: "coerces_to_plain_text OptionGroup_toSlackElement ''label''"
  unfolding coerces_to_plain_text_def OptionGroup_toSlackElement_def Let_def
  apply (intro allI impI)
  apply (elim conjE)
  apply ((erule andThenE, (clarsimp simp: coerce_if_present_Inr lookup_put split: if_splits)?)+)
  done

lemma Confirm_coerces_title: "coerces_to_plain_text Confirm_toSlackElement ''title''"
  unfolding coerces_to_plain_text_def Confirm_toSlackElement_def Let_def
  apply (intro allI impI)
  apply (elim conjE)
  apply ((erule andThenE, (clarsimp simp: assign_in_Inr lookup_put split: if_splits)?)+)
  done

lemma Confirm_coerces_confirm: "coerces_to_plain_text Confirm_toSlackElement ''confirm''"
  unfolding coerces_to_plain_text_def Confirm_toSlackElement_def Let_def
  apply (intro allI impI)
  apply (elim conjE)
  apply ((erule andThenE, (clarsimp simp: assign_in_Inr lookup_put split: if_splits)?)+)
  done

lemma Confirm_coerces_deny: "coerces_to_plain_text Confirm_toSlackElement ''deny''"
  unfolding coerces_to_plain_text_def Confirm_toSlackElement_def Let_def
  apply (intro allI impI)
  apply (elim conjE)
  apply ((erule andThenE, (clarsimp simp: assign_in_Inr lookup_put split: if_splits)?)+)
  done

lemma Modal_total:
  assumes "reconcile (lookup props ''title'') = Inr (title, titlePromises)"
    and "reconcile (lookup props ''submit'') = Inr (submit, submitPromises)"
    and "reconcile (lookup props ''close'') = Inr (closing, closePromises)"
    and "resolved_value title" and "resolved_value submit" and "resolved_value closing"
  shows "Modal_toSlackElement props reconcile promises =
       Inr (JObj [(''type'', JStr ''modal''), (''blocks'', JArr []),
                  (''title'', as_plain_text title), (''submit'', as_plain_text submit),
                  (''close'', as_plain_text closing)],
            promises @ titlePromises @ submitPromises @ closePromises)"
  using assms
  by (simp add: Modal_toSlackElement_def Let_def coerce_if_present_resolved lookup_put)

lemma Home_total:
  assumes "reconcile (lookup props ''title'') = Inr (title, titlePromises)"
    and "resolved_value title"
  shows "Home_toSlackElement props reconcile promises =
       Inr (JObj [(''type'', JStr ''home''), (''blocks'', JArr []),
                  (''title'', as_plain_text title)], promises @ titlePromises)"
  using assms
  by (simp add: Home_toSlackElement_def Let_def coerce_if_present_resolved lookup_put)

lemma Input_total:
  assumes "reconcile (lookup props ''hint'') = Inr (hint, hintPromises)"
    and "reconcile (lookup props ''label'') = Inr (label, labelPromises)"
    and "resolved_value hint" and "resolved_value label"
  shows "Input_toSlackElement props reconcile promises =
       Inr (JObj [(''type'', JStr ''input''), (''optional'', lookup props ''optional''),
                  (''hint'', as_plain_text hint), (''label'', as_plain_text label)],
            promises @ hintPromises @ labelPromises)"
  using assms
  by (simp add: Input_toSlackElement_def Let_def coerce_if_present_resolved lookup_put)

lemma TextField_total:
  assumes "reconcile (lookup props ''placeholder'') = Inr (placeholder, placeholderPromises)"
    and "resolved_value placeholder"
  shows "TextField_toSlackElement props reconcile promises =
       Inr (JObj [(''type'', JStr ''plain_text_input''),
                  (''initial_value'', lookup props ''initialValue''),
                  (''action_id'', lookup props ''action''),
                  (''max_length'', lookup props ''maxLength''),
                  (''min_length'', lookup props ''minLength''),
                  (''multiline'', lookup props ''multiline''),
                  (''placeholder'', as_plain_text placeholder)],
            promises @ placeholderPromises)"
  using assms
  by (simp add: TextField_toSlackElement_def Let_def coerce_if_present_resolved lookup_put)

lemma DatePicker_total:
  assumes "reconcile (lookup props ''placeholder'') = Inr (placeholder, placeholderPromises)"
    and "reconcile (lookup props ''confirm'') = Inr (confirm, confirmPromises)"
    and "resolved_value placeholder"
  shows "DatePicker_toSlackElement props reconcile promises =
       Inr (JObj [(''type'', JStr ''datepicker''),
                  (''initial_date'', lookup props ''initialDate''),
                  (''action_id'', lookup props ''action''),
                  (''placeholder'', as_plain_text placeholder), (''confirm'', confirm)],
            promises @ placeholderPromises @ confirmPromises)"
  using assms
  by (simp add: DatePicker_toSlackElement_def Let_def coerce_if_present_resolved lookup_put)

lemma OptionGroup_total:
  assumes "reconcile (lookup props ''label'') = Inr (label, labelPromises)"
    and "resolved_value label"
  shows "OptionGroup_toSlackElement props reconcile promises =
       Inr (JObj [(''isOptionGroup'', JFun (JBool True)), (''options'', JArr []),
                  (''label'', as_plain_text label)], promises @ labelPromises)"
  using assms
  by (simp add: OptionGroup_toSlackElement_def Let_def coerce_if_present_resolved lookup_put)

lemma Confirm_total:
  assumes "reconcile (lookup props ''title'') = Inr (title, titlePromises)"
    and "reconcile (lookup props ''confirm'') = Inr (confirm, confirmPromises)"
    and "reconcile (lookup props ''deny'') = Inr (deny, denyPromises)"
    and "resolved_value title" and "resolved_value confirm" and "resolved_value deny"
    and "title \<noteq> JUndefined" and "confirm \<noteq> JUndefined" and "deny \<noteq> JUndefined"
  shows "Confirm_toSlackElement props reconcile promises =
       Inr (JObj [(''isConfirm'', JFun (JBool True)), (''style'', lookup props ''style''),
                  (''title'', as_plain_text title), (''confirm'', as_plain_text confirm),
                  (''deny'', as_plain_text deny)],
            promises @ titlePromises @ confirmPromises @ denyPromises)"
  using assms
  by (simp add: Confirm_toSlackElement_def Let_def assign_in_resolved lookup_put)

lemma SelectMenu_total:
  assumes "lookup props ''type'' = JStr variant"
    and "reconcile (lookup props ''confirm'') = Inr (confirm, confirmPromises)"
    and "reconcile (lookup props ''placeholder'') = Inr (placeholder, placeholderPromises)"
    and "reconcile (children_section props) = Inr (resolved, optionPromises)"
    and "get_prop resolved ''fields'' = Inr optionsOrGroups"
    and "reconcile (lookup props ''initialOption'') = Inr (initialOption, initialOptionPromises)"
    and "resolved_value placeholder"
  shows "SelectMenu_toSlackElement props reconcile promises =
       andThen (SelectMenu_static props optionsOrGroups
                  [(''type'', JStr (variant @ ''_select'')),
                   (''action_id'', lookup props ''action''),
                   (''onSearchOptions'', lookup props ''onSearchOptions'')]) (\<lambda>staged.
       andThen (menu_identifiers (''initialUser'', ''initial_user'')
                  (''initialChannel'', ''initial_channel'')
                  (''initialConversation'', ''initial_conversation'') props
                  (SelectMenu_external props initialOption staged)) (\<lambda>finished.
         Inr (JObj (put ''placeholder'' (as_plain_text placeholder)
                      (put ''confirm'' confirm finished)),
              promises @ confirmPromises @ placeholderPromises @ optionPromises
                @ initialOptionPromises)))"
  using assms
  by (simp add: SelectMenu_toSlackElement_def Let_def coerce_put_resolved)

lemma MultiSelectMenu_total:
  assumes "lookup props ''type'' = JStr variant"
    and "reconcile (lookup props ''confirm'') = Inr (confirm, confirmPromises)"
    and "reconcile (lookup props ''placeholder'') = Inr (placeholder, placeholderPromises)"
    and "reconcile (children_section props) = Inr (resolved, optionPromises)"
    and "get_prop resolved ''fields'' = Inr optionsOrGroups"
    and "resolved_value placeholder"
  shows "MultiSelectMenu_toSlackElement props reconcile promises =
       andThen (MultiSelectMenu_static props optionsOrGroups
                  [(''type'', JStr (''multi_'' @ variant @ ''_select'')),
                   (''action_id'', lookup props ''action''),
                   (''max_selected_items'', lookup props ''maxSelectedItems''),
                   (''onSearchOptions'', lookup props ''onSearchOptions'')]) (\<lambda>staged.
       andThen (menu_identifiers (''initialUsers'', ''initial_users'')
                  (''initialChannels'', ''initial_channels'')
                  (''initialConversations'', ''initial_conversations'') props
                  (MultiSelectMenu_external props optionsOrGroups staged)) (\<lambda>finished.
         Inr (JObj (put ''placeholder'' (as_plain_text placeholder)
                      (put ''confirm'' confirm finished)),
              promises @ confirmPromises @ placeholderPromises @ optionPromises
                @ optionPromises)))"
  using assms
  by (simp add: MultiSelectMenu_toSlackElement_def Let_def coerce_put_resolved)

lemma text_props_coerced:
  assumes "(R, k) \<in> text_bearing_props"
    and "R props reconcile promises = Inr (out, ps)"
    and "reconcile (lookup props k) = Inr (v, vps)"
    and "truthy v"
  shows "\<exists>fs. v = JObj fs
           \<and> get_prop out k = Inr (JObj (put ''type'' (JStr ''plain_text'') fs))"
proof -
  have "coerces_to_plain_text R k"
    using assms(1) unfolding text_bearing_props_def
    by (auto intro:
        Modal_coerces_title Modal_coerces_submit Modal_coerces_close
        Home_coerces_title Input_coerces_label Input_coerces_hint
        TextField_coerces_placeholder DatePicker_coerces_placeholder SelectMenu_coerces_placeholder
        MultiSelectMenu_coerces_placeholder OptionGroup_coerces_label Confirm_coerces_title
        Confirm_coerces_confirm Confirm_coerces_deny)
  with assms(2-4) show ?thesis
    unfolding coerces_to_plain_text_def by fastforce
qed

text \<open>
  C1. For each text-bearing prop of Modal, Home, Input, TextField, DatePicker, OptionGroup,
  Confirm, SelectMenu and MultiSelectMenu, and for every \<open>reconcile\<close>: when the
  \<open>reconcile\<close> calls of the rule return, each text-bearing prop resolving to an instance
  object or to \<open>undefined\<close>, the rule returns the element written out below. Under the
  name of the prop the element holds the resolved value with its \<open>type\<close> overwritten by
  \<open>plain_text\<close> and its other fields as they were (\<open>as_plain_text\<close>), whatever kind the
  value had, and \<open>undefined\<close> for a prop that resolved to \<open>undefined\<close>. Confirm returns
  so when its three props resolved to objects. The two select menus return what their
  variant blocks leave, with \<open>confirm\<close> and the coerced placeholder put on it, or the error
  of a variant block; the \<open>users\<close>, \<open>channels\<close> and \<open>conversations\<close> blocks never
  fail. For a resolved value of any other shape (last conjunct, over \<open>text_bearing_props\<close>):
  whenever the rule returns and the value is truthy, the value is an object and the
  output holds it with its \<open>type\<close> overwritten.
\<close>

theorem text_props_plain_text:
  "(reconcile (lookup props ''title'') = Inr (title, titlePromises)
    \<and> reconcile (lookup props ''submit'') = Inr (submit, submitPromises)
    \<and> reconcile (lookup props ''close'') = Inr (closing, closePromises)
    \<and> resolved_value title \<and> resolved_value submit \<and> resolved_value closing \<longrightarrow>
    Modal_toSlackElement props reconcile promises =
      Inr (JObj [(''type'', JStr ''modal''), (''blocks'', JArr []),
                 (''title'', as_plain_text title), (''submit'', as_plain_text submit),
                 (''close'', as_plain_text closing)],
           promises @ titlePromises @ submitPromises @ closePromises))
   \<and> (reconcile (lookup props ''title'') = Inr (title, titlePromises)
      \<and> resolved_value title \<longrightarrow>
    Home_toSlackElement props reconcile promises =
      Inr (JObj [(''type'', JStr ''home''), (''blocks'', JArr []),
                 (''title'', as_plain_text title)], promises @ titlePromises))
   \<and> (reconcile (lookup props ''hint'') = Inr (hint, hintPromises)
      \<and> reconcile (lookup props ''label'') = Inr (label, labelPromises)
      \<and> resolved_value hint \<and> resolved_value label \<longrightarrow>
    Input_toSlackElement props reconcile promises =
      Inr (JObj [(''type'', JStr ''input''), (''optional'', lookup props ''optional''),
                 (''hint'', as_plain_text hint), (''label'', as_plain_text label)],
           promises @ hintPromises @ labelPromises))
   \<and> (reconcile (lookup props ''placeholder'') = Inr (placeholder, placeholderPromises)
      \<and> resolved_value placeholder \<longrightarrow>
    TextField_toSlackElement props reconcile promises =
      Inr (JObj [(''type'', JStr ''plain_text_input''),
                 (''initial_value'', lookup props ''initialValue''),
                 (''action_id'', lookup props ''action''),
                 (''max_length'', lookup props ''maxLength''),
                 (''min_length'', lookup props ''minLength''),
                 (''multiline'', lookup props ''multiline''),
                 (''placeholder'', as_plain_text placeholder)],
           promises @ placeholderPromises))
   \<and> (reconcile (lookup props ''placeholder'') = Inr (placeholder, placeholderPromises)
      \<and> reconcile (lookup props ''confirm'') = Inr (confirm, confirmPromises)
      \<and> resolved_value placeholder \<longrightarrow>
    DatePicker_toSlackElement props reconcile promises =
      Inr (JObj [(''type'', JStr ''datepicker''),
                 (''initial_date'', lookup props ''initialDate''),
                 (''action_id'', lookup props ''action''),
                 (''placeholder'', as_plain_text placeholder), (''confirm'', confirm)],
           promises @ placeholderPromises @ confirmPromises))
   \<and> (reconcile (lookup props ''label'') = Inr (label, labelPromises)
      \<and> resolved_value label \<longrightarrow>
    OptionGroup_toSlackElement props reconcile promises =
      Inr (JObj [(''isOptionGroup'', JFun (JBool True)), (''options'', JArr []),
                 (''label'', as_plain_text label)], promises @ labelPromises))
   \<and> (reconcile (lookup props ''title'') = Inr (title, titlePromises)
      \<and> reconcile (lookup props ''confirm'') = Inr (confirm, confirmPromises)
      \<and> reconcile (lookup props ''deny'') = Inr (deny, denyPromises)
      \<and> resolved_value title \<and> resolved_value confirm \<and> resolved_value deny
      \<and> title \<noteq> JUndefined \<and> confirm \<noteq> JUndefined \<and> deny \<noteq> JUndefined \<longrightarrow>
    Confirm_toSlackElement props reconcile promises =
      Inr (JObj [(''isConfirm'', JFun (JBool True)), (''style'', lookup props ''style''),
                 (''title'', as_plain_text title), (''confirm'', as_plain_text confirm),
                 (''deny'', as_plain_text deny)],
           promises @ titlePromises @ confirmPromises @ denyPromises))
   \<and> (lookup props ''type'' = JStr variant
      \<and> reconcile (lookup props ''confirm'') = Inr (confirm, confirmPromises)
      \<and> reconcile (lookup props ''placeholder'') = Inr (placeholder, placeholderPromises)
      \<and> reconcile (children_section props) = Inr (resolved, optionPromises)
      \<and> get_prop resolved ''fields'' = Inr optionsOrGroups
      \<and> reconcile (lookup props ''initialOption'') = Inr (initialOption, initialOptionPromises)
      \<and> resolved_value placeholder \<longrightarrow>
    SelectMenu_toSlackElement props reconcile promises =
      andThen (SelectMenu_static props optionsOrGroups
                 [(''type'', JStr (variant @ ''_select'')),
                  (''action_id'', lookup props ''action''),
                  (''onSearchOptions'', lookup props ''onSearchOptions'')]) (\<lambda>staged.
      andThen (menu_identifiers (''initialUser'', ''initial_user'')
                 (''initialChannel'', ''initial_channel'')
                 (''initialConversation'', ''initial_conversation'') props
                 (SelectMenu_external props initialOption staged)) (\<lambda>finished.
        Inr (JObj (put ''placeholder'' (as_plain_text placeholder)
                     (put ''confirm'' confirm finished)),
             promises @ confirmPromises @ placeholderPromises @ optionPromises
               @ initialOptionPromises))))
   \<and> (lookup props ''type'' = JStr variant
      \<and> reconcile (lookup props ''confirm'') = Inr (confirm, confirmPromises)
      \<and> reconcile (lookup props ''placeholder'') = Inr (placeholder, placeholderPromises)
      \<and> reconcile (children_section props) = Inr (resolved, optionPromises)
      \<and> get_prop resolved ''fields'' = Inr optionsOrGroups
      \<and> resolved_value placeholder \<longrightarrow>
    MultiSelectMenu_toSlackElement props reconcile promises =
      andThen (MultiSelectMenu_static props optionsOrGroups
                 [(''type'', JStr (''multi_'' @ variant @ ''_select'')),
                  (''action_id'', lookup props ''action''),
                  (''max_selected_items'', lookup props ''maxSelectedItems''),
                  (''onSearchOptions'', lookup props ''onSearchOptions'')]) (\<lambda>staged.
      andThen (menu_identifiers (''initialUsers'', ''initial_users'')
                 (''initialChannels'', ''initial_channels'')
                 (''initialConversations'', ''initial_conversations'') props
                 (MultiSelectMenu_external props optionsOrGroups staged)) (\<lambda>finished.
        Inr (JObj (put ''placeholder'' (as_plain_text placeholder)
                     (put ''confirm'' confirm finished)),
             promises @ confirmPromises @ placeholderPromises @ optionPromises
               @ optionPromises))))
   \<and> (\<exists>finished. menu_identifiers users channels conversations props staged = Inr finished)
   \<and> (resolved_value v \<and> v \<noteq> JUndefined \<longrightarrow>
      get_prop (as_plain_text v) ''type'' = Inr (JStr ''plain_text'')
      \<and> (\<forall>k. k \<noteq> ''type'' \<longrightarrow> get_prop (as_plain_text v) k = get_prop v k))
   \<and> ((R, k) \<in> text_bearing_props
      \<and> R props reconcile promises = Inr (out, ps)
      \<and> reconcile (lookup props k) = Inr (v, vps) \<and> truthy v \<longrightarrow>
      (\<exists>fs. v = JObj fs
         \<and> get_prop out k = Inr (JObj (put ''type'' (JStr ''plain_text'') fs))))"
  by (intro conjI impI; (elim conjE)?)
    (rule Modal_total Home_total Input_total TextField_total DatePicker_total OptionGroup_total
       Confirm_total SelectMenu_total MultiSelectMenu_total menu_identifiers_total
       as_plain_text_type as_plain_text_other text_props_coerced; assumption)+

theorem text_props_plain_text_witness:
  "resolve 2 markdown_hello = Inr (resolved_hello ''mrkdwn'', [])
   \<and> get_prop (resolved_hello ''plain_text'') ''type'' = Inr (JStr ''plain_text'')
   \<and> Modal_toSlackElement hello_props (resolve 2) [] =
       Inr (JObj [(''type'', JStr ''modal''), (''blocks'', JArr []),
                  (''title'', resolved_hello ''plain_text''),
                  (''submit'', resolved_hello ''plain_text''), (''close'', JUndefined)], [])
   \<and> Home_toSlackElement hello_props (resolve 2) [] =
       Inr (JObj [(''type'', JStr ''home''), (''blocks'', JArr []),
                  (''title'', resolved_hello ''plain_text'')], [])
   \<and> Input_toSlackElement hello_props (resolve 2) [] =
       Inr (JObj [(''type'', JStr ''input''), (''optional'', JUndefined),
                  (''hint'', resolved_hello ''plain_text''),
                  (''label'', resolved_hello ''plain_text'')], [])
   \<and> TextField_toSlackElement hello_props (resolve 2) [] =
       Inr (JObj [(''type'', JStr ''plain_text_input''), (''initial_value'', JUndefined),
                  (''action_id'', JStr ''fruit''), (''max_length'', JUndefined),
                  (''min_length'', JUndefined), (''multiline'', JUndefined),
                  (''placeholder'', resolved_hello ''plain_text'')], [])
   \<and> DatePicker_toSlackElement hello_props (resolve 2) [] =
       Inr (JObj [(''type'', JStr ''datepicker''), (''initial_date'', JUndefined),
                  (''action_id'', JStr ''fruit''),
                  (''placeholder'', resolved_hello ''plain_text''),
                  (''confirm'', JUndefined)], [])
   \<and> OptionGroup_toSlackElement hello_props (resolve 2) [] =
       Inr (JObj [(''isOptionGroup'', JFun (JBool True)), (''options'', JArr []),
                  (''label'', resolved_hello ''plain_text'')], [])
   \<and> SelectMenu_toSlackElement hello_props (resolve 2) [] =
       Inr (JObj [(''type'', JStr ''static_select''), (''action_id'', JStr ''fruit''),
                  (''onSearchOptions'', JUndefined), (''confirm'', JUndefined),
                  (''placeholder'', resolved_hello ''plain_text'')], [])
   \<and> MultiSelectMenu_toSlackElement hello_props (resolve 2) [] =
       Inr (JObj [(''type'', JStr ''multi_static_select''), (''action_id'', JStr ''fruit''),
                  (''max_selected_items'', JUndefined), (''onSearchOptions'', JUndefined),
                  (''confirm'', JUndefined),
                  (''placeholder'', resolved_hello ''plain_text'')], [])
   \<and> Confirm_toSlackElement hello_dialog (resolve 2) [] =
       Inr (JObj [(''isConfirm'', JFun (JBool True)), (''style'', JUndefined),
                  (''title'', resolved_hello ''plain_text''),
                  (''confirm'', resolved_hello ''plain_text''),
                  (''deny'', resolved_hello ''plain_text'')], [])"
proof -
  let ?md = "resolved_hello ''mrkdwn''"
  let ?children = "JObj [(''type'', JStr ''section''), (''text'', JUndefined),
                         (''accessory'', JUndefined)]"
  have hello: "resolve 2 markdown_hello = Inr (?md, [])"
    by code_simp
  have title: "resolve 2 (lookup hello_props ''title'') = Inr (?md, [])"
    and submit: "resolve 2 (lookup hello_props ''submit'') = Inr (?md, [])"
    and closing: "resolve 2 (lookup hello_props ''close'') = Inr (JUndefined, [])"
    and hint: "resolve 2 (lookup hello_props ''hint'') = Inr (?md, [])"
    and label: "resolve 2 (lookup hello_props ''label'') = Inr (?md, [])"
    and placeholder: "resolve 2 (lookup hello_props ''placeholder'') = Inr (?md, [])"
    and confirm: "resolve 2 (lookup hello_props ''confirm'') = Inr (JUndefined, [])"
    and children: "resolve 2 (children_section hello_props) = Inr (?children, [])"
    and fields: "get_prop ?children ''fields'' = Inr JUndefined"
    and initialOption: "resolve 2 (lookup hello_props ''initialOption'') = Inr (JUndefined, [])"
    and variant: "lookup hello_props ''type'' = JStr ''static''"
    by code_simp+
  have dialog: "resolve 2 (lookup hello_dialog ''title'') = Inr (?md, [])"
    "resolve 2 (lookup hello_dialog ''confirm'') = Inr (?md, [])"
    "resolve 2 (lookup hello_dialog ''deny'') = Inr (?md, [])"
    by code_simp+
  have shapes: "resolved_value ?md" "resolved_value JUndefined" "?md \<noteq> JUndefined"
    by (simp_all add: resolved_value_def resolved_hello_def)
  have coerced: "as_plain_text ?md = resolved_hello ''plain_text''"
    by (simp add: as_plain_text_def resolved_hello_def)
  have listed: "(Home_toSlackElement, ''title'') \<in> text_bearing_props" "truthy ?md"
    by (simp_all add: text_bearing_props_def resolved_hello_def)
  have absent: "lookup hello_props ''optional'' = JUndefined"
    "lookup hello_props ''initialValue'' = JUndefined"
    "lookup hello_props ''action'' = JStr ''fruit''"
    "lookup hello_props ''maxLength'' = JUndefined"
    "lookup hello_props ''minLength'' = JUndefined"
    "lookup hello_props ''multiline'' = JUndefined"
    "lookup hello_props ''initialDate'' = JUndefined"
    "lookup hello_props ''onSearchOptions'' = JUndefined"
    "lookup hello_props ''maxSelectedItems'' = JUndefined"
    "lookup hello_dialog ''style'' = JUndefined"
    by (simp_all add: hello_props_def hello_dialog_def)
  note rules = text_props_plain_text
    [where props = hello_props and reconcile = "resolve 2" and promises = "[]"
       and title = ?md and titlePromises = "[]" and submit = ?md and submitPromises = "[]"
       and closing = JUndefined and closePromises = "[]"
       and hint = ?md and hintPromises = "[]" and label = ?md and labelPromises = "[]"
       and placeholder = ?md and placeholderPromises = "[]"
       and confirm = JUndefined and confirmPromises = "[]"
       and variant = "''static''" and resolved = ?children and optionPromises = "[]"
       and optionsOrGroups = JUndefined and initialOption = JUndefined
       and initialOptionPromises = "[]" and v = ?md
       and users = "(''initialUser'', ''initial_user'')"
       and channels = "(''initialChannel'', ''initial_channel'')"
       and conversations = "(''initialConversation'', ''initial_conversation'')"
       and staged = "[]" and R = Home_toSlackElement and k = "''title''"
       and out = "JObj [(''type'', JStr ''home''), (''blocks'', JArr []),
                        (''title'', resolved_hello ''plain_text'')]"
       and ps = "[]" and vps = "[]"]
  have dialog_run: "Confirm_toSlackElement hello_dialog (resolve 2) [] =
       Inr (JObj [(''isConfirm'', JFun (JBool True)), (''style'', JUndefined),
                  (''title'', resolved_hello ''plain_text''),
                  (''confirm'', resolved_hello ''plain_text''),
                  (''deny'', resolved_hello ''plain_text'')], [])"
    using text_props_plain_text
      [where props = hello_dialog and reconcile = "resolve 2" and promises = "[]"
         and title = ?md and titlePromises = "[]"
         and confirm = ?md and confirmPromises = "[]" and deny = ?md and denyPromises = "[]"]
      dialog shapes coerced absent
    by (simp del: resolve.simps)
  from rules dialog_run hello title submit closing hint label placeholder confirm children
    fields initialOption variant shapes coerced listed absent
  show ?thesis
    by (simp del: resolve.simps
        add: SelectMenu_static_def SelectMenu_external_def MultiSelectMenu_static_def
          MultiSelectMenu_external_def menu_identifiers_def)
qed

section \<open>Confirm\<close>

text \<open>
  C10. Confirm writes \<open>type\<close> on its resolved \<open>title\<close>, \<open>confirm\<close> and \<open>deny\<close> without a
  guard. When the three \<open>reconcile\<close> calls return (each an instance object or
  \<open>undefined\<close>), the conversion throws a TypeError exactly when one of the three resolved
  to \<open>undefined\<close>; when all three are defined it returns the dialog with the three
  kinds forced to \<open>plain_text\<close>, and no error is possible. The guarded coercion of the
  other nodes returns on an \<open>undefined\<close> value where the unguarded write throws.
\<close>

theorem Confirm_throws_unless_all_three:
  assumes "reconcile (lookup props ''title'') = Inr (title, titlePromises)"
    and "reconcile (lookup props ''confirm'') = Inr (confirm, confirmPromises)"
    and "reconcile (lookup props ''deny'') = Inr (deny, denyPromises)"
    and "resolved_value title" and "resolved_value confirm" and "resolved_value deny"
  shows "Confirm_toSlackElement props reconcile promises =
      (if title \<noteq> JUndefined \<and> confirm \<noteq> JUndefined \<and> deny \<noteq> JUndefined
       then Inr (JObj [(''isConfirm'', JFun (JBool True)), (''style'', lookup props ''style''),
                       (''title'', as_plain_text title), (''confirm'', as_plain_text confirm),
                       (''deny'', as_plain_text deny)],
                 promises @ titlePromises @ confirmPromises @ denyPromises)
       else Inl TypeError)
   \<and> (lookup instance k = JUndefined \<longrightarrow>
        assign_in instance k ''type'' (JStr ''plain_text'') = Inl TypeError
        \<and> coerce_if_present instance k = Inr instance)"
proof (intro conjI impI)
  show "Confirm_toSlackElement props reconcile promises =
      (if title \<noteq> JUndefined \<and> confirm \<noteq> JUndefined \<and> deny \<noteq> JUndefined
       then Inr (JObj [(''isConfirm'', JFun (JBool True)), (''style'', lookup props ''style''),
                       (''title'', as_plain_text title), (''confirm'', as_plain_text confirm),
                       (''deny'', as_plain_text deny)],
                 promises @ titlePromises @ confirmPromises @ denyPromises)
       else Inl TypeError)"
    using assms
    by (simp add: Confirm_toSlackElement_def Let_def assign_in_resolved resolved_value_simps)
next
  assume "lookup instance k = JUndefined"
  then show "assign_in instance k ''type'' (JStr ''plain_text'') = Inl TypeError"
    by (simp add: assign_in_def)
next
  assume "lookup instance k = JUndefined"
  then show "coerce_if_present instance k = Inr instance"
    by (simp add: coerce_if_present_def)
qed

theorem Confirm_throws_unless_all_three_witness:
  "Confirm_toSlackElement [(''title'', JStr ''Sure?''), (''confirm'', JStr ''Yes'')] (resolve 1) [] =
     Inl TypeError
   \<and> Confirm_toSlackElement
         [(''title'', JStr ''Sure?''), (''confirm'', JStr ''Yes''), (''deny'', JStr ''No'')]
         (resolve 1) [] =
       Inr (JObj [(''isConfirm'', JFun (JBool True)), (''style'', JUndefined),
                  (''title'', JObj [(''type'', JStr ''plain_text''), (''text'', JStr ''Sure?'')]),
                  (''confirm'', JObj [(''type'', JStr ''plain_text''), (''text'', JStr ''Yes'')]),
                  (''deny'', JObj [(''type'', JStr ''plain_text''), (''text'', JStr ''No'')])],
            [])
   \<and> assign_in [(''title'', JUndefined)] ''title'' ''type'' (JStr ''plain_text'') = Inl TypeError
   \<and> coerce_if_present [(''title'', JUndefined)] ''title'' = Inr [(''title'', JUndefined)]"
proof -
  let ?two = "[(''title'', JStr ''Sure?''), (''confirm'', JStr ''Yes'')]"
  let ?three = "[(''title'', JStr ''Sure?''), (''confirm'', JStr ''Yes''), (''deny'', JStr ''No'')]"
  have two: "resolve 1 (lookup ?two ''title'') = Inr (text_leaf ''Sure?'', [])"
    "resolve 1 (lookup ?two ''confirm'') = Inr (text_leaf ''Yes'', [])"
    "resolve 1 (lookup ?two ''deny'') = Inr (JUndefined, [])"
    by simp_all
  have three: "resolve 1 (lookup ?three ''title'') = Inr (text_leaf ''Sure?'', [])"
    "resolve 1 (lookup ?three ''confirm'') = Inr (text_leaf ''Yes'', [])"
    "resolve 1 (lookup ?three ''deny'') = Inr (text_leaf ''No'', [])"
    by simp_all
  have shape: "resolved_value (text_leaf s)" "resolved_value JUndefined" for s
    by (simp_all add: text_leaf_def resolved_value_def)
  from Confirm_throws_unless_all_three [OF two shape(1) shape(1) shape(2),
      of "[]" "[(''title'', JUndefined)]" "''title''"]
    Confirm_throws_unless_all_three [OF three shape(1) shape(1) shape(1),
      of "[]" "[(''title'', JUndefined)]" "''title''"]
  show ?thesis
    by (simp add: text_leaf_def as_plain_text_def del: resolve.simps)
qed

section \<open>Section\<close>

text \<open>
  C6, as the code has it. When its two \<open>reconcile\<close> calls return, Section overwrites
  the kind of its resolved text with \<open>plain_text\<close> exactly when the resolved value has
  the generic type \<open>text\<close> (the leaf of a bare string), and leaves every other resolved
  text as it is. So a text that has the kind the rule of a Text node gave it keeps that
  kind: \<open>plain_text\<close> when the node declared that kind or none, \<open>mrkdwn\<close> when it
  declared the markdown kind.
\<close>

theorem Section_text_kind:
  assumes "reconcile (lookup props ''accessory'') = Inr (accessory, accessoryPromises)"
    and "reconcile (lookup props ''text'') = Inr (txt, textPromises)"
  shows "Section_toSlackElement props reconcile promises =
     Inr (JObj [(''type'', JStr ''section''),
                (''text'', if get_prop txt ''type'' = Inr (JStr ''text'')
                           then as_plain_text txt else txt),
                (''accessory'', accessory)],
          promises @ accessoryPromises @ textPromises)
   \<and> (get_prop txt ''type'' = get_prop (Text config) ''type''
        \<and> lookup config ''type'' \<noteq> JStr ''text''
        \<longrightarrow>
        Section_toSlackElement props reconcile promises =
          Inr (JObj [(''type'', JStr ''section''), (''text'', txt), (''accessory'', accessory)],
               promises @ accessoryPromises @ textPromises))"
proof -
  have general: "Section_toSlackElement props reconcile promises =
     Inr (JObj [(''type'', JStr ''section''),
                (''text'', if get_prop txt ''type'' = Inr (JStr ''text'')
                           then as_plain_text txt else txt),
                (''accessory'', accessory)],
          promises @ accessoryPromises @ textPromises)"
    using assms
    by (auto simp: Section_toSlackElement_def Let_def is_text_leaf_iff [symmetric] assign_in_def
        as_plain_text_def dest!: is_text_leaf_obj)
  have declared: "get_prop (Text config) ''type'' \<noteq> Inr (JStr ''text'')"
    if "lookup config ''type'' \<noteq> JStr ''text''"
    using that unfolding Text_def
    by (simp add: Text_toSlackElement_def Text_defaults_type Let_def)
  from general declared show ?thesis by auto
qed

theorem Section_text_kind_witness:
  "Section_toSlackElement [(''text'', JStr ''Hello'')] (resolve 1) [] =
     Inr (JObj [(''type'', JStr ''section''),
                (''text'', JObj [(''type'', JStr ''plain_text''), (''text'', JStr ''Hello'')]),
                (''accessory'', JUndefined)], [])
   \<and> Section_toSlackElement [(''text'', markdown_hello)] (resolve 2) [] =
     Inr (JObj [(''type'', JStr ''section''),
                (''text'', JObj [(''type'', JStr ''mrkdwn''), (''text'', JStr ''Hello''),
                                 (''verbatim'', JUndefined)]),
                (''accessory'', JUndefined)], [])"
proof -
  let ?md = "JObj [(''type'', JStr ''mrkdwn''), (''text'', JStr ''Hello''),
                   (''verbatim'', JUndefined)]"
  let ?config = "[(''type'', JStr ''mrkdwn''), (''children'', JStr ''Hello'')]"
  have leaf: "resolve 1 (lookup [(''text'', JStr ''Hello'')] ''accessory'') = Inr (JUndefined, [])"
    "resolve 1 (lookup [(''text'', JStr ''Hello'')] ''text'') =
      Inr (JObj [(''type'', JStr ''text''), (''text'', JStr ''Hello'')], [])"
    by (simp_all add: text_leaf_def)
  have node: "resolve 2 (lookup [(''text'', markdown_hello)] ''accessory'') = Inr (JUndefined, [])"
    "resolve 2 (lookup [(''text'', markdown_hello)] ''text'') = Inr (?md, [])"
    by code_simp+
  have kind: "get_prop ?md ''type'' = get_prop (Text ?config) ''type''
      \<and> lookup ?config ''type'' \<noteq> JStr ''text''"
    by code_simp
  from Section_text_kind [OF leaf, of "[]" "[]"]
    Section_text_kind [OF node, of "[]" ?config] kind
  show ?thesis
    by (simp add: as_plain_text_def del: resolve.simps)
qed

text \<open>
  The claim as the spec states it fails on a Text node that declares the markdown kind:
  the text of the Section keeps \<open>mrkdwn\<close>.
\<close>

theorem Section_keeps_markdown_counterexample:
  "Section_toSlackElement [(''text'', markdown_hello)] (resolve 2) [] =
     Inr (JObj [(''type'', JStr ''section''),
                (''text'', JObj [(''type'', JStr ''mrkdwn''), (''text'', JStr ''Hello''),
                                 (''verbatim'', JUndefined)]),
                (''accessory'', JUndefined)], [])
   \<and> get_prop (JObj [(''type'', JStr ''mrkdwn''), (''text'', JStr ''Hello''),
                     (''verbatim'', JUndefined)]) ''type'' \<noteq> Inr (JStr ''plain_text'')"
  by code_simp

section \<open>Absent props and unknown type tags\<close>

lemma Button_no_validation:
  assumes "reconcile (lookup props ''confirm'') = Inr (confirm, confirmPromises)"
  shows "Button_toSlackElement props reconcile promises =
     Inr (JObj [(''type'', JStr ''button''),
                (''action_id'', lookup props ''action''),
                (''style'', lookup props ''style''),
                (''url'', lookup props ''url''),
                (''text'', JObj [(''type'', JStr ''plain_text''), (''text'', JStr []),
                                 (''emoji'', lookup props ''emoji'')]),
                (''confirm'', confirm)],
          promises @ confirmPromises)"
  using assms by (simp add: Button_toSlackElement_def)

lemma Option_no_validation:
  assumes "reconcile (lookup props ''description'') = Inr (description, descriptionPromises)"
    and "resolved_value description"
  shows "Option_toSlackElement props reconcile promises =
     Inr (JObj [(''isSelected'', JFun (lookup props ''selected'')),
                (''isOption'', JFun (JBool True)),
                (''value'', lookup props ''value''),
                (''url'', lookup props ''url''),
                (''description'', as_plain_text description)],
          promises @ descriptionPromises)"
  using assms by (clarsimp simp: Option_toSlackElement_def Let_def coerce_if_present_resolved)

lemma SelectMenu_unknown_tag:
  assumes "lookup props ''type'' = JStr tag" and "tag \<notin> variants"
    and "reconcile (lookup props ''confirm'') = Inr (confirm, confirmPromises)"
    and "reconcile (lookup props ''placeholder'') = Inr (placeholder, placeholderPromises)"
    and "resolved_value placeholder"
    and "reconcile (children_section props) = Inr (JObj section, optionPromises)"
    and "reconcile (lookup props ''initialOption'') = Inr (initialOption, initialOptionPromises)"
  shows "SelectMenu_toSlackElement props reconcile promises =
     Inr (JObj [(''type'', JStr (tag @ ''_select'')),
                (''action_id'', lookup props ''action''),
                (''onSearchOptions'', lookup props ''onSearchOptions''),
                (''confirm'', confirm),
                (''placeholder'', as_plain_text placeholder)],
          promises @ confirmPromises @ placeholderPromises @ optionPromises
            @ initialOptionPromises)"
  using assms
  apply (clarsimp simp: SelectMenu_toSlackElement_def Let_def menu_identifiers_unknown
      SelectMenu_external_def variants_def lookup_put coerce_if_present_resolved)
  apply (auto simp: SelectMenu_static_def lookup_put coerce_if_present_resolved split: jsval.splits)
  done

lemma MultiSelectMenu_unknown_tag:
  assumes "lookup props ''type'' = JStr tag" and "tag \<notin> variants"
    and "reconcile (lookup props ''confirm'') = Inr (confirm, confirmPromises)"
    and "reconcile (lookup props ''placeholder'') = Inr (placeholder, placeholderPromises)"
    and "resolved_value placeholder"
    and "reconcile (children_section props) = Inr (JObj section, optionPromises)"
  shows "MultiSelectMenu_toSlackElement props reconcile promises =
     Inr (JObj [(''type'', JStr (''multi_'' @ tag @ ''_select'')),
                (''action_id'', lookup props ''action''),
                (''max_selected_items'', lookup props ''maxSelectedItems''),
                (''onSearchOptions'', lookup props ''onSearchOptions''),
                (''confirm'', confirm),
                (''placeholder'', as_plain_text placeholder)],
          promises @ confirmPromises @ placeholderPromises @ optionPromises @ optionPromises)"
  using assms
  apply (clarsimp simp: MultiSelectMenu_toSlackElement_def Let_def menu_identifiers_unknown
      MultiSelectMenu_external_def variants_def lookup_put coerce_if_present_resolved)
  apply (auto simp: MultiSelectMenu_static_def lookup_put coerce_if_present_resolved
      split: jsval.splits)
  done

text \<open>
  C8, as the code has it. Whenever \<open>reconcile\<close> returns for the nested props (instance
  objects or \<open>undefined\<close>), a Button converts whether or not \<open>action\<close> is given and an
  Option whether or not \<open>value\<close> is given, the prop copied into the element as it is
  (\<open>undefined\<close> when absent); a SelectMenu or MultiSelectMenu whose \<open>type\<close> is a string
  outside the declared variants converts to an element of type \<open>tag_select\<close> or
  \<open>multi_tag_select\<close> with none of the variants' fields.
\<close>

theorem absent_prop_unknown_tag_convert:
  "(reconcile (lookup bprops ''confirm'') = Inr (bconfirm, bconfirmPromises) \<longrightarrow>
      Button_toSlackElement bprops reconcile promises =
        Inr (JObj [(''type'', JStr ''button''),
                   (''action_id'', lookup bprops ''action''),
                   (''style'', lookup bprops ''style''),
                   (''url'', lookup bprops ''url''),
                   (''text'', JObj [(''type'', JStr ''plain_text''), (''text'', JStr []),
                                    (''emoji'', lookup bprops ''emoji'')]),
                   (''confirm'', bconfirm)],
             promises @ bconfirmPromises))
   \<and> (reconcile (lookup oprops ''description'') = Inr (description, descriptionPromises)
        \<and> resolved_value description \<longrightarrow>
      Option_toSlackElement oprops reconcile promises =
        Inr (JObj [(''isSelected'', JFun (lookup oprops ''selected'')),
                   (''isOption'', JFun (JBool True)),
                   (''value'', lookup oprops ''value''),
                   (''url'', lookup oprops ''url''),
                   (''description'', as_plain_text description)],
             promises @ descriptionPromises))
   \<and> (lookup sprops ''type'' = JStr tag \<and> tag \<notin> variants
        \<and> reconcile (lookup sprops ''confirm'') = Inr (confirm, confirmPromises)
        \<and> reconcile (lookup sprops ''placeholder'') = Inr (placeholder, placeholderPromises)
        \<and> resolved_value placeholder
        \<and> reconcile (children_section sprops) = Inr (JObj section, optionPromises)
        \<and> reconcile (lookup sprops ''initialOption'') = Inr (initialOption, initialOptionPromises)
        \<longrightarrow>
      SelectMenu_toSlackElement sprops reconcile promises =
        Inr (JObj [(''type'', JStr (tag @ ''_select'')),
                   (''action_id'', lookup sprops ''action''),
                   (''onSearchOptions'', lookup sprops ''onSearchOptions''),
                   (''confirm'', confirm),
                   (''placeholder'', as_plain_text placeholder)],
             promises @ confirmPromises @ placeholderPromises @ optionPromises
               @ initialOptionPromises)
      \<and> MultiSelectMenu_toSlackElement sprops reconcile promises =
        Inr (JObj [(''type'', JStr (''multi_'' @ tag @ ''_select'')),
                   (''action_id'', lookup sprops ''action''),
                   (''max_selected_items'', lookup sprops ''maxSelectedItems''),
                   (''onSearchOptions'', lookup sprops ''onSearchOptions''),
                   (''confirm'', confirm),
                   (''placeholder'', as_plain_text placeholder)],
             promises @ confirmPromises @ placeholderPromises @ optionPromises @ optionPromises))"
  by (intro conjI impI; (elim conjE)?)
    (rule Button_no_validation Option_no_validation SelectMenu_unknown_tag
      MultiSelectMenu_unknown_tag; assumption)+

theorem absent_prop_unknown_tag_convert_witness:
  "Button_toSlackElement [(''children'', JStr ''Go'')] (resolve 2) [] =
     Inr (JObj [(''type'', JStr ''button''), (''action_id'', JUndefined),
                (''style'', JUndefined), (''url'', JUndefined),
                (''text'', JObj [(''type'', JStr ''plain_text''), (''text'', JStr []),
                                 (''emoji'', JUndefined)]),
                (''confirm'', JUndefined)], [])
   \<and> Option_toSlackElement [(''children'', JStr ''A'')] (resolve 2) [] =
     Inr (JObj [(''isSelected'', JFun JUndefined), (''isOption'', JFun (JBool True)),
                (''value'', JUndefined), (''url'', JUndefined),
                (''description'', JUndefined)], [])
   \<and> SelectMenu_toSlackElement
       [(''type'', JStr ''bogus''), (''action'', JStr ''pick''), (''placeholder'', JStr ''Pick'')]
       (resolve 2) [] =
     Inr (JObj [(''type'', JStr ''bogus_select''), (''action_id'', JStr ''pick''),
                (''onSearchOptions'', JUndefined), (''confirm'', JUndefined),
                (''placeholder'', JObj [(''type'', JStr ''plain_text''),
                                        (''text'', JStr ''Pick'')])], [])
   \<and> MultiSelectMenu_toSlackElement
       [(''type'', JStr ''bogus''), (''action'', JStr ''pick''), (''placeholder'', JStr ''Pick'')]
       (resolve 2) [] =
     Inr (JObj [(''type'', JStr ''multi_bogus_select''), (''action_id'', JStr ''pick''),
                (''max_selected_items'', JUndefined),
                (''onSearchOptions'', JUndefined), (''confirm'', JUndefined),
                (''placeholder'', JObj [(''type'', JStr ''plain_text''),
                                        (''text'', JStr ''Pick'')])], [])"
proof -
  let ?menu = "[(''type'', JStr ''bogus''), (''action'', JStr ''pick''),
                (''placeholder'', JStr ''Pick'')]"
  let ?section = "[(''type'', JStr ''section''), (''text'', JUndefined),
                   (''accessory'', JUndefined)]"
  have button: "resolve 2 (lookup [(''children'', JStr ''Go'')] ''confirm'') = Inr (JUndefined, [])"
    by code_simp
  have option: "resolve 2 (lookup [(''children'', JStr ''A'')] ''description'') = Inr (JUndefined, [])"
    by code_simp
  have menu: "lookup ?menu ''type'' = JStr ''bogus''"
    "resolve 2 (lookup ?menu ''confirm'') = Inr (JUndefined, [])"
    "resolve 2 (lookup ?menu ''placeholder'') = Inr (text_leaf ''Pick'', [])"
    "resolve 2 (children_section ?menu) = Inr (JObj ?section, [])"
    "resolve 2 (lookup ?menu ''initialOption'') = Inr (JUndefined, [])"
    by code_simp+
  have tag: "''bogus'' \<notin> variants"
    by (simp add: variants_def)
  have shape: "resolved_value JUndefined" "resolved_value (text_leaf ''Pick'')"
    by (simp_all add: resolved_value_def text_leaf_def)
  from absent_prop_unknown_tag_convert
    [of "resolve 2" "[(''children'', JStr ''Go'')]" JUndefined "[]" "[]"
      "[(''children'', JStr ''A'')]" JUndefined "[]"
      ?menu "''bogus''" JUndefined "[]" "text_leaf ''Pick''" "[]" ?section "[]" JUndefined "[]"]
    button option menu tag shape
  show ?thesis
    by (simp add: text_leaf_def as_plain_text_def del: resolve.simps)
qed

text \<open>
  The claim as the spec states it fails: a Button with no \<open>action\<close> and a SelectMenu
  with the tag \<open>bogus\<close> are converted, by the rule and by the engine around it.
\<close>

theorem Button_SelectMenu_convert_counterexample:
  "Button_toSlackElement [(''children'', JStr ''Go'')] (resolve 2) [] =
     Inr (JObj [(''type'', JStr ''button''), (''action_id'', JUndefined),
                (''style'', JUndefined), (''url'', JUndefined),
                (''text'', JObj [(''type'', JStr ''plain_text''), (''text'', JStr []),
                                 (''emoji'', JUndefined)]),
                (''confirm'', JUndefined)], [])
   \<and> resolve 3 (createElement ''Button'' [] [(''children'', JStr ''Go'')]) =
     Inr (JObj [(''type'', JStr ''button''), (''action_id'', JUndefined),
                (''style'', JUndefined), (''url'', JUndefined),
                (''text'', JObj [(''type'', JStr ''plain_text''), (''text'', JStr ''Go''),
                                 (''emoji'', JUndefined)]),
                (''confirm'', JUndefined)], [])
   \<and> SelectMenu_toSlackElement
       [(''type'', JStr ''bogus''), (''action'', JStr ''pick''), (''placeholder'', JStr ''Pick'')]
       (resolve 2) [] =
     Inr (JObj [(''type'', JStr ''bogus_select''), (''action_id'', JStr ''pick''),
                (''onSearchOptions'', JUndefined), (''confirm'', JUndefined),
                (''placeholder'', JObj [(''type'', JStr ''plain_text''),
                                        (''text'', JStr ''Pick'')])], [])"
  by code_simp

section \<open>Selection extraction and option flattening\<close>

lemma isSelected_truthy:
  "is_option x \<Longrightarrow> \<exists>r. isSelected x = Inr r \<and> truthy r = marked_selected x"
  by (auto simp: is_option_def isSelected_def marked_selected_def split: jsval.splits)

lemma isSelected_clear_url:
  "is_option x \<Longrightarrow> isSelected (clear_url x) = isSelected x"
  by (auto simp: is_option_def isSelected_def clear_url_def lookup_put split: jsval.splits)

lemma find_selected_options:
  "list_all is_option options \<Longrightarrow>
   find_selected (map clear_url options) = Inr (first_selected options)"
proof (induction options)
  case Nil
  show ?case by (simp add: first_selected_def)
next
  case (Cons x xs)
  from Cons.prems have x: "is_option x" and xs: "list_all is_option xs" by simp_all
  from isSelected_truthy [OF x] obtain r where r: "isSelected x = Inr r" "truthy r = marked_selected x"
    by blast
  show ?case
    using Cons.IH [OF xs] r
    by (simp add: isSelected_clear_url [OF x] first_selected_def)
qed


lemma flatten_groups_concat:
  "list_all is_option_group groups \<Longrightarrow>
   flatten_groups acc groups = Inr (acc @ concat (map group_options groups))"
proof (induction groups arbitrary: acc)
  case Nil
  show ?case by simp
next
  case (Cons g gs)
  from Cons.prems have g: "is_option_group g" and gs: "list_all is_option_group gs" by simp_all
  from g obtain fs os where "g = JObj fs" "lookup fs ''options'' = JArr os" "group_options g = os"
    by (auto simp: is_option_group_def group_options_def split: jsval.splits)
  then show ?case using Cons.IH [OF gs] by simp
qed

lemma flattened_groups:
  assumes "groups \<noteq> []" and "list_all is_option_group groups"
  shows "flattened_options groups = Inr (concat (map group_options groups))"
proof (cases groups)
  case Nil
  with assms(1) show ?thesis by simp
next
  case (Cons g gs)
  note all = assms(2)
  with Cons have "is_option_group g" by simp
  then have "flattened_options (g # gs) = flatten_groups [] (g # gs)"
    by (auto simp: is_option_group_def split: jsval.splits)
  with all Cons show ?thesis
    using flatten_groups_concat [of groups "[]"] by simp
qed

lemma flattened_first_group:
  "is_option_group first \<Longrightarrow>
   flattened_options (first # others) = flatten_groups [] (first # others)"
  by (auto simp: is_option_group_def split: jsval.splits)

lemma flattened_first_option:
  "is_option first \<Longrightarrow> flattened_options (first # others) = Inr (first # others)"
  by (auto simp: is_option_def split: jsval.splits)

lemma length_concat_groups:
  "length (concat (map group_options groups)) = sum_list (map (\<lambda>g. length (group_options g)) groups)"
  by (induction groups) simp_all


lemma RadioButtons_initial_option:
  assumes "reconcile (children_section props) = Inr (section, optionPromises)"
    and "get_prop section ''fields'' = Inr (JArr options)"
    and "reconcile (lookup props ''confirm'') = Inr (confirm, confirmPromises)"
    and "list_all is_option options"
  shows "RadioButtons_toSlackElement props reconcile promises =
     Inr (JObj [(''type'', JStr ''radio_buttons''),
                (''action_id'', lookup props ''action''),
                (''options'', JArr []),
                (''initial_option'', first_selected options),
                (''confirm'', confirm)],
          promises @ optionPromises @ confirmPromises)"
  using assms
  by (simp add: RadioButtons_toSlackElement_def Let_def find_selected_options)




lemma isSelected_absent:
  "lookup fs ''isSelected'' = JUndefined \<Longrightarrow> isSelected (JObj fs) = Inl TypeError"
  "lookup fs ''isSelected'' = JUndefined \<Longrightarrow> isSelected (clear_url (JObj fs)) = Inl TypeError"
  by (simp_all add: isSelected_def clear_url_def lookup_put)

lemma Checkboxes_RadioButtons_throw:
  assumes "reconcile (children_section props) = Inr (section, optionPromises)"
    and "get_prop section ''fields'' = Inr (JArr (JObj fs # others))"
    and "lookup fs ''isSelected'' = JUndefined"
    and "reconcile (lookup props ''confirm'') = Inr (confirm, confirmPromises)"
  shows "Checkboxes_toSlackElement props reconcile promises = Inl TypeError"
    and "RadioButtons_toSlackElement props reconcile promises = Inl TypeError"
  using assms
  by (simp_all add: Checkboxes_toSlackElement_def RadioButtons_toSlackElement_def Let_def
      isSelected_absent)



lemma filter_selected_plain:
  "list_all is_option options \<Longrightarrow> filter_selected options = Inr (filter marked_selected options)"
proof (induction options)
  case Nil
  show ?case by simp
next
  case (Cons x xs)
  from Cons.prems have x: "is_option x" and xs: "list_all is_option xs" by simp_all
  from isSelected_truthy [OF x] obtain r where r: "isSelected x = Inr r" "truthy r = marked_selected x"
    by blast
  show ?case
    using Cons.IH [OF xs] r by simp
qed

lemma Checkboxes_initial_options:
  assumes "reconcile (children_section props) = Inr (resolved, optionPromises)"
    and "get_prop resolved ''fields'' = Inr (JArr options)"
    and "reconcile (lookup props ''confirm'') = Inr (confirm, confirmPromises)"
    and "list_all is_option options"
  shows "Checkboxes_toSlackElement props reconcile promises =
     Inr (JObj [(''type'', JStr ''checkboxes''),
                (''action_id'', lookup props ''action''),
                (''options'', JArr []),
                (''initial_options'',
                 if all_selected options \<noteq> [] then JArr (all_selected options) else JUndefined),
                (''confirm'', confirm)],
          promises @ optionPromises @ confirmPromises)"
  using assms
  by (simp add: Checkboxes_toSlackElement_def Let_def filter_selected_plain all_selected_def)

text \<open>
  C2, as the code has it. In the static SelectMenu and MultiSelectMenu, for a non-empty
  list of resolved children that are OptionGroups, the option list is the concatenation of
  the groups' own options, groups in their order and options in theirs, so its length is
  the sum of the groups' lengths; both menus extract their selection from that list.
  Grouping is decided by the first resolved child alone: with a group first, all children
  are flattened as groups; with an option first, the children are the option list as they
  are, whatever follows. Checkboxes and RadioButtons have no such step. When the
  \<open>reconcile\<close> calls return, they throw a TypeError if the first resolved child is an
  object without \<open>isSelected\<close>, as the element of an OptionGroup is; and if the resolved
  children are Options, they return with the selection taken from these children:
  \<open>initial_options\<close> of Checkboxes is the list of those marked selected, each with its
  \<open>url\<close> cleared, or \<open>undefined\<close> when none is, and \<open>initial_option\<close> of RadioButtons
  is the first of them.
\<close>

theorem static_menus_flatten_groups:
  assumes "groups \<noteq> []" and "list_all is_option_group groups"
  shows "flattened_options groups = Inr (concat (map group_options groups))
   \<and> length (concat (map group_options groups)) =
       sum_list (map (\<lambda>g. length (group_options g)) groups)
   \<and> (lookup props ''type'' = JStr ''static'' \<longrightarrow>
        SelectMenu_static props (JArr groups) inst =
          andThen (find_selected (map clear_url (concat (map group_options groups))))
            (\<lambda>selectedOption. Inr (put ''initial_option'' selectedOption inst))
        \<and> MultiSelectMenu_static props (JArr groups) inst =
          andThen (filter_selected (map clear_url (concat (map group_options groups))))
            (\<lambda>selectedOptions. Inr (put ''initial_options'' (JArr selectedOptions) inst)))
   \<and> (is_option_group first \<longrightarrow>
        flattened_options (first # others) = flatten_groups [] (first # others))
   \<and> (is_option first \<longrightarrow> flattened_options (first # others) = Inr (first # others))
   \<and> (reconcile (children_section cprops) = Inr (resolved, optionPromises)
        \<and> get_prop resolved ''fields'' = Inr (JArr (JObj fs # rest))
        \<and> lookup fs ''isSelected'' = JUndefined
        \<and> reconcile (lookup cprops ''confirm'') = Inr (confirm, confirmPromises)
        \<longrightarrow>
        Checkboxes_toSlackElement cprops reconcile promises = Inl TypeError
        \<and> RadioButtons_toSlackElement cprops reconcile promises = Inl TypeError)
   \<and> (reconcile (children_section cprops) = Inr (resolved, optionPromises)
        \<and> get_prop resolved ''fields'' = Inr (JArr options)
        \<and> list_all is_option options
        \<and> reconcile (lookup cprops ''confirm'') = Inr (confirm, confirmPromises)
        \<longrightarrow>
        Checkboxes_toSlackElement cprops reconcile promises =
          Inr (JObj [(''type'', JStr ''checkboxes''),
                     (''action_id'', lookup cprops ''action''),
                     (''options'', JArr []),
                     (''initial_options'',
                      if all_selected options \<noteq> [] then JArr (all_selected options)
                      else JUndefined),
                     (''confirm'', confirm)],
               promises @ optionPromises @ confirmPromises)
        \<and> RadioButtons_toSlackElement cprops reconcile promises =
          Inr (JObj [(''type'', JStr ''radio_buttons''),
                     (''action_id'', lookup cprops ''action''),
                     (''options'', JArr []),
                     (''initial_option'', first_selected options),
                     (''confirm'', confirm)],
               promises @ optionPromises @ confirmPromises))"
proof -
  have menus: "flattened_options groups = Inr (concat (map group_options groups))
   \<and> length (concat (map group_options groups)) =
       sum_list (map (\<lambda>g. length (group_options g)) groups)
   \<and> (lookup props ''type'' = JStr ''static'' \<longrightarrow>
        SelectMenu_static props (JArr groups) inst =
          andThen (find_selected (map clear_url (concat (map group_options groups))))
            (\<lambda>selectedOption. Inr (put ''initial_option'' selectedOption inst))
        \<and> MultiSelectMenu_static props (JArr groups) inst =
          andThen (filter_selected (map clear_url (concat (map group_options groups))))
            (\<lambda>selectedOptions. Inr (put ''initial_options'' (JArr selectedOptions) inst)))
   \<and> (is_option_group first \<longrightarrow>
        flattened_options (first # others) = flatten_groups [] (first # others))
   \<and> (is_option first \<longrightarrow> flattened_options (first # others) = Inr (first # others))"
    using assms flattened_groups [OF assms]
    by (simp add: length_concat_groups flattened_first_group flattened_first_option
        SelectMenu_static_def MultiSelectMenu_static_def
        del: flattened_options.simps flatten_groups.simps)
  have boxes: "Checkboxes_toSlackElement cprops reconcile promises = Inl TypeError
        \<and> RadioButtons_toSlackElement cprops reconcile promises = Inl TypeError"
    if "reconcile (children_section cprops) = Inr (resolved, optionPromises)"
      and "get_prop resolved ''fields'' = Inr (JArr (JObj fs # rest))"
      and "lookup fs ''isSelected'' = JUndefined"
      and "reconcile (lookup cprops ''confirm'') = Inr (confirm, confirmPromises)"
    using Checkboxes_RadioButtons_throw [OF that] by simp
  have plain: "Checkboxes_toSlackElement cprops reconcile promises =
          Inr (JObj [(''type'', JStr ''checkboxes''),
                     (''action_id'', lookup cprops ''action''),
                     (''options'', JArr []),
                     (''initial_options'',
                      if all_selected options \<noteq> [] then JArr (all_selected options)
                      else JUndefined),
                     (''confirm'', confirm)],
               promises @ optionPromises @ confirmPromises)
        \<and> RadioButtons_toSlackElement cprops reconcile promises =
          Inr (JObj [(''type'', JStr ''radio_buttons''),
                     (''action_id'', lookup cprops ''action''),
                     (''options'', JArr []),
                     (''initial_option'', first_selected options),
                     (''confirm'', confirm)],
               promises @ optionPromises @ confirmPromises)"
    if "reconcile (children_section cprops) = Inr (resolved, optionPromises)"
      and "get_prop resolved ''fields'' = Inr (JArr options)"
      and "list_all is_option options"
      and "reconcile (lookup cprops ''confirm'') = Inr (confirm, confirmPromises)"
    using Checkboxes_initial_options [OF that(1,2,4,3)] RadioButtons_initial_option [OF that(1,2,4,3)]
    by simp
  from menus boxes plain show ?thesis by blast
qed

theorem static_menus_flatten_groups_witness:
  "resolved_groups \<noteq> [] \<and> list_all is_option_group resolved_groups
   \<and> flattened_options resolved_groups =
       Inr [resolved_option ''apple'' JUndefined, resolved_option ''pear'' (JBool True),
            resolved_option ''plum'' (JBool True)]
   \<and> length (concat (map group_options resolved_groups)) = 2 + 1
   \<and> SelectMenu_static grouped_menu (JArr resolved_groups) [] =
       Inr [(''initial_option'', clear_url (resolved_option ''pear'' (JBool True)))]
   \<and> flattened_options (resolved_option ''apple'' JUndefined # resolved_groups) =
       Inr (resolved_option ''apple'' JUndefined # resolved_groups)
   \<and> Checkboxes_toSlackElement grouped_menu (resolve 4) [] = Inl TypeError
   \<and> RadioButtons_toSlackElement grouped_menu (resolve 4) [] = Inl TypeError
   \<and> Checkboxes_toSlackElement flat_menu (resolve 4) [] =
       Inr (JObj [(''type'', JStr ''checkboxes''), (''action_id'', JStr ''fruit''),
                  (''options'', JArr []),
                  (''initial_options'',
                   JArr [clear_url (resolved_option ''pear'' (JBool True)),
                         clear_url (resolved_option ''plum'' (JBool True))]),
                  (''confirm'', JUndefined)], [])
   \<and> RadioButtons_toSlackElement flat_menu (resolve 4) [] =
       Inr (JObj [(''type'', JStr ''radio_buttons''), (''action_id'', JStr ''fruit''),
                  (''options'', JArr []),
                  (''initial_option'', clear_url (resolved_option ''pear'' (JBool True))),
                  (''confirm'', JUndefined)], [])"
proof -
  let ?pome = "[(''isOptionGroup'', JFun (JBool True)),
      (''options'', JArr [resolved_option ''apple'' JUndefined,
                          resolved_option ''pear'' (JBool True)]),
      (''label'', JObj [(''type'', JStr ''plain_text''), (''text'', JStr ''Pome'')])]"
  let ?stone = "JObj [(''isOptionGroup'', JFun (JBool True)),
      (''options'', JArr [resolved_option ''plum'' (JBool True)]),
      (''label'', JObj [(''type'', JStr ''plain_text''), (''text'', JStr ''Stone'')])]"
  have groups: "resolved_groups \<noteq> []" "list_all is_option_group resolved_groups"
    by (simp_all add: resolved_groups_def is_option_group_def)
  have options: "concat (map group_options resolved_groups) =
      [resolved_option ''apple'' JUndefined, resolved_option ''pear'' (JBool True),
       resolved_option ''plum'' (JBool True)]"
    by (simp add: resolved_groups_def group_options_def)
  have static: "lookup grouped_menu ''type'' = JStr ''static''"
    by (simp add: grouped_menu_def)
  have first: "is_option (resolved_option ''apple'' JUndefined)"
    by (simp add: resolved_option_def is_option_def)
  have selection: "find_selected (map clear_url
      [resolved_option ''apple'' JUndefined, resolved_option ''pear'' (JBool True),
       resolved_option ''plum'' (JBool True)]) =
      Inr (clear_url (resolved_option ''pear'' (JBool True)))"
    by (simp add: resolved_option_def clear_url_def isSelected_def)
  have boxes: "resolve 4 (children_section grouped_menu) =
      Inr (JObj (resolved_section resolved_groups), [])"
    "get_prop (JObj (resolved_section resolved_groups)) ''fields'' =
      Inr (JArr (JObj ?pome # [?stone]))"
    "lookup ?pome ''isSelected'' = JUndefined"
    "resolve 4 (lookup grouped_menu ''confirm'') = Inr (JUndefined, [])"
    by code_simp+
  have plain: "resolve 4 (children_section flat_menu) =
      Inr (JObj (resolved_section resolved_options), [])"
    "get_prop (JObj (resolved_section resolved_options)) ''fields'' = Inr (JArr resolved_options)"
    "resolve 4 (lookup flat_menu ''confirm'') = Inr (JUndefined, [])"
    "lookup flat_menu ''action'' = JStr ''fruit''"
    by code_simp+
  have marked: "list_all is_option resolved_options"
    "all_selected resolved_options =
      [clear_url (resolved_option ''pear'' (JBool True)),
       clear_url (resolved_option ''plum'' (JBool True))]"
    "first_selected resolved_options = clear_url (resolved_option ''pear'' (JBool True))"
    by (simp_all add: resolved_options_def resolved_option_def is_option_def all_selected_def
        first_selected_def marked_selected_def)
  have flat: "Checkboxes_toSlackElement flat_menu (resolve 4) [] =
       Inr (JObj [(''type'', JStr ''checkboxes''), (''action_id'', JStr ''fruit''),
                  (''options'', JArr []),
                  (''initial_options'',
                   JArr [clear_url (resolved_option ''pear'' (JBool True)),
                         clear_url (resolved_option ''plum'' (JBool True))]),
                  (''confirm'', JUndefined)], [])
   \<and> RadioButtons_toSlackElement flat_menu (resolve 4) [] =
       Inr (JObj [(''type'', JStr ''radio_buttons''), (''action_id'', JStr ''fruit''),
                  (''options'', JArr []),
                  (''initial_option'', clear_url (resolved_option ''pear'' (JBool True))),
                  (''confirm'', JUndefined)], [])"
    using static_menus_flatten_groups [OF groups,
        where props = grouped_menu and inst = "[]"
          and first = "resolved_option ''apple'' JUndefined" and others = resolved_groups
          and reconcile = "resolve 4" and cprops = flat_menu
          and resolved = "JObj (resolved_section resolved_options)" and optionPromises = "[]"
          and fs = ?pome and rest = "[?stone]"
          and options = resolved_options and confirm = JUndefined
          and confirmPromises = "[]" and promises = "[]"]
      plain marked
    by (simp del: resolve.simps flattened_options.simps flatten_groups.simps)
  from static_menus_flatten_groups [OF groups,
      where props = grouped_menu and inst = "[]"
        and first = "resolved_option ''apple'' JUndefined" and others = resolved_groups
        and reconcile = "resolve 4" and cprops = grouped_menu
        and resolved = "JObj (resolved_section resolved_groups)" and optionPromises = "[]"
        and fs = ?pome and rest = "[?stone]" and options = resolved_options
        and confirm = JUndefined and confirmPromises = "[]" and promises = "[]"]
    groups options static first selection boxes flat
  show ?thesis
    by (simp del: resolve.simps flattened_options.simps flatten_groups.simps)
qed

text \<open>
  The claim as the spec states it fails for Checkboxes and RadioButtons: with the two
  groups as resolved children they detect no grouping and flatten nothing, and the
  conversion throws.
\<close>

theorem Checkboxes_RadioButtons_no_flattening_counterexample:
  "resolve 4 (children_section grouped_menu) =
     Inr (JObj [(''type'', JStr ''section''), (''text'', JUndefined),
                (''accessory'', JUndefined), (''fields'', JArr resolved_groups)], [])
   \<and> list_all is_option_group resolved_groups
   \<and> Checkboxes_toSlackElement grouped_menu (resolve 4) [] = Inl TypeError
   \<and> RadioButtons_toSlackElement grouped_menu (resolve 4) [] = Inl TypeError"
  by code_simp







section \<open>External menus\<close>

lemma children_section_put:
  "k \<noteq> ''children'' \<Longrightarrow> children_section (put k v props) = children_section props"
  by (simp add: children_section_def lookup_put)

lemma MultiSelectMenu_stages_put:
  "MultiSelectMenu_static (put ''initialOptions'' v props) = MultiSelectMenu_static props"
  "MultiSelectMenu_external (put ''initialOptions'' v props) = MultiSelectMenu_external props"
  "menu_identifiers (''initialUsers'', ''initial_users'') (''initialChannels'', ''initial_channels'')
      (''initialConversations'', ''initial_conversations'') (put ''initialOptions'' v props) =
   menu_identifiers (''initialUsers'', ''initial_users'') (''initialChannels'', ''initial_channels'')
      (''initialConversations'', ''initial_conversations'') props"
  by (intro ext,
      simp add: MultiSelectMenu_static_def MultiSelectMenu_external_def menu_identifiers_def
        lookup_put Let_def split: jsval.splits cong: if_cong)+

text \<open>
  The external SelectMenu takes \<open>initial_option\<close> from the resolved \<open>initialOption\<close>
  prop, with the \<open>url\<close> cleared, and copies \<open>minQueryLength\<close>.
\<close>

lemma SelectMenu_external_initial_option:
  assumes "lookup props ''type'' = JStr ''external''"
    and "reconcile (lookup props ''confirm'') = Inr (confirm, confirmPromises)"
    and "reconcile (lookup props ''placeholder'') = Inr (placeholder, placeholderPromises)"
    and "resolved_value placeholder"
    and "reconcile (children_section props) = Inr (JObj section, optionPromises)"
    and "reconcile (lookup props ''initialOption'') = Inr (initialOption, initialOptionPromises)"
    and "truthy initialOption"
  shows "SelectMenu_toSlackElement props reconcile promises =
     Inr (JObj [(''type'', JStr ''external_select''),
                (''action_id'', lookup props ''action''),
                (''onSearchOptions'', lookup props ''onSearchOptions''),
                (''initial_option'', clear_url initialOption),
                (''min_query_length'', lookup props ''minQueryLength''),
                (''confirm'', confirm),
                (''placeholder'', as_plain_text placeholder)],
          promises @ confirmPromises @ placeholderPromises @ optionPromises
            @ initialOptionPromises)"
  using assms
  apply (clarsimp simp: SelectMenu_toSlackElement_def Let_def SelectMenu_external_def lookup_put
      coerce_if_present_resolved menu_identifiers_def)
  apply (auto simp: SelectMenu_static_def lookup_put coerce_if_present_resolved
      menu_identifiers_def split: jsval.splits)
  done

text \<open>
  C5, where the code departs from it. MultiSelectMenu never reads \<open>initialOptions\<close>: its
  result is the same whatever that prop holds, because the value it names
  \<open>initialOptions\<close> is resolved from \<open>props.children\<close> a second time. On the external menu
  with \<open>initialOptions\<close> set to two options and no children, \<open>initial_options\<close> is
  \<open>undefined\<close>, while the Section over the prop resolves to the two options, and the
  single-select menu on the same props does take its \<open>initialOption\<close>.
\<close>

theorem MultiSelectMenu_ignores_initialOptions:
  "MultiSelectMenu_toSlackElement (put ''initialOptions'' v props) reconcile promises =
     MultiSelectMenu_toSlackElement props reconcile promises
   \<and> MultiSelectMenu_toSlackElement external_menu (resolve 4) [] =
     Inr (JObj [(''type'', JStr ''multi_external_select''), (''action_id'', JStr ''fruit''),
                (''max_selected_items'', JUndefined),
                (''onSearchOptions'', JFun (JArr [])),
                (''initial_options'', JUndefined), (''min_query_length'', JNum 2),
                (''confirm'', JUndefined),
                (''placeholder'', JObj [(''type'', JStr ''plain_text''),
                                        (''text'', JStr ''Pick'')])], [])
   \<and> resolve 4 (createElement ''Section'' []
         [(''children'', lookup external_menu ''initialOptions'')]) =
     Inr (JObj (resolved_section [resolved_option ''pear'' (JBool True),
                                  resolved_option ''plum'' (JBool True)]), [])
   \<and> SelectMenu_toSlackElement external_menu (resolve 4) [] =
     Inr (JObj [(''type'', JStr ''external_select''), (''action_id'', JStr ''fruit''),
                (''onSearchOptions'', JFun (JArr [])),
                (''initial_option'', clear_url (resolved_option ''pear'' (JBool True))),
                (''min_query_length'', JNum 2), (''confirm'', JUndefined),
                (''placeholder'', JObj [(''type'', JStr ''plain_text''),
                                        (''text'', JStr ''Pick'')])], [])"
proof -
  have "MultiSelectMenu_toSlackElement (put ''initialOptions'' v props) reconcile promises =
     MultiSelectMenu_toSlackElement props reconcile promises"
    by (simp add: MultiSelectMenu_toSlackElement_def MultiSelectMenu_stages_put lookup_put
        children_section_put)
  moreover have "MultiSelectMenu_toSlackElement external_menu (resolve 4) [] =
     Inr (JObj [(''type'', JStr ''multi_external_select''), (''action_id'', JStr ''fruit''),
                (''max_selected_items'', JUndefined),
                (''onSearchOptions'', JFun (JArr [])),
                (''initial_options'', JUndefined), (''min_query_length'', JNum 2),
                (''confirm'', JUndefined),
                (''placeholder'', JObj [(''type'', JStr ''plain_text''),
                                        (''text'', JStr ''Pick'')])], [])"
    by code_simp
  moreover have "resolve 4 (createElement ''Section'' []
         [(''children'', lookup external_menu ''initialOptions'')]) =
     Inr (JObj (resolved_section [resolved_option ''pear'' (JBool True),
                                  resolved_option ''plum'' (JBool True)]), [])"
    by code_simp
  moreover have "SelectMenu_toSlackElement external_menu (resolve 4) [] =
     Inr (JObj [(''type'', JStr ''external_select''), (''action_id'', JStr ''fruit''),
                (''onSearchOptions'', JFun (JArr [])),
                (''initial_option'', clear_url (resolved_option ''pear'' (JBool True))),
                (''min_query_length'', JNum 2), (''confirm'', JUndefined),
                (''placeholder'', JObj [(''type'', JStr ''plain_text''),
                                        (''text'', JStr ''Pick'')])], [])"
    by code_simp
  ultimately show ?thesis by blast
qed

section \<open>Marker fields in the output\<close>

lemma function_valued_field:
  "lookup fs k = JFun r \<Longrightarrow> \<not> function_free (JObj fs)"
  by (induction fs) (auto split: if_splits)

lemma Confirm_fields:
  assumes "Confirm_toSlackElement props reconcile promises = Inr (JObj out, ps)"
  shows "map fst out = [''isConfirm'', ''style'', ''title'', ''confirm'', ''deny'']
    \<and> lookup out ''isConfirm'' = JFun (JBool True)"
  using assms unfolding Confirm_toSlackElement_def Let_def
  apply -
  apply ((erule andThenE, (clarsimp simp: assign_in_Inr lookup_put split: if_splits)?)+)
  done

lemma Option_fields:
  assumes "Option_toSlackElement props reconcile promises = Inr (JObj out, ps)"
  shows "map fst out = [''isSelected'', ''isOption'', ''value'', ''url'', ''description'']
    \<and> lookup out ''isSelected'' = JFun (lookup props ''selected'')
    \<and> lookup out ''isOption'' = JFun (JBool True)"
  using assms unfolding Option_toSlackElement_def Let_def
  apply -
  apply ((erule andThenE, (clarsimp simp: coerce_if_present_Inr lookup_put split: if_splits)?)+)
  done

lemma OptionGroup_fields:
  assumes "OptionGroup_toSlackElement props reconcile promises = Inr (JObj out, ps)"
  shows "map fst out = [''isOptionGroup'', ''options'', ''label'']
    \<and> lookup out ''isOptionGroup'' = JFun (JBool True)"
  using assms unfolding OptionGroup_toSlackElement_def Let_def
  apply -
  apply ((erule andThenE, (clarsimp simp: coerce_if_present_Inr lookup_put split: if_splits)?)+)
  done

lemma has_field_simps:
  "has_field [] k = False" "has_field ((k', v) # fs) k = (k' = k \<or> has_field fs k)"
  by (auto simp: has_field_def)

lemma SelectMenu_static_keeps:
  "SelectMenu_static props xs instance = Inr instance' \<Longrightarrow> k \<noteq> ''initial_option'' \<Longrightarrow>
   lookup instance' k = lookup instance k \<and> (has_field instance k \<longrightarrow> has_field instance' k)"
  unfolding SelectMenu_static_def
  by (auto simp: lookup_put has_field_put split: jsval.splits if_splits elim!: andThenE)

lemma MultiSelectMenu_static_keeps:
  "MultiSelectMenu_static props xs instance = Inr instance' \<Longrightarrow> k \<noteq> ''initial_options'' \<Longrightarrow>
   lookup instance' k = lookup instance k \<and> (has_field instance k \<longrightarrow> has_field instance' k)"
  unfolding MultiSelectMenu_static_def
  by (auto simp: lookup_put has_field_put split: jsval.splits if_splits elim!: andThenE)

lemma menu_identifiers_keeps:
  "menu_identifiers u c v props instance = Inr instance' \<Longrightarrow>
   k \<notin> {snd u, snd c, snd v, ''filter''} \<Longrightarrow>
   lookup instance' k = lookup instance k \<and> (has_field instance k \<longrightarrow> has_field instance' k)"
  unfolding menu_identifiers_def Let_def
  by (auto simp: lookup_put has_field_put split: if_splits elim!: andThenE)

lemma SelectMenu_onSearchOptions:
  assumes "SelectMenu_toSlackElement props reconcile promises = Inr (JObj out, ps)"
  shows "has_field out ''onSearchOptions''
    \<and> lookup out ''onSearchOptions'' = lookup props ''onSearchOptions''"
  using assms unfolding SelectMenu_toSlackElement_def Let_def
  apply -
  apply ((erule andThenE, (clarsimp)?)+)
  apply (drule SelectMenu_static_keeps [where k = "''onSearchOptions''"], simp)
  apply (drule menu_identifiers_keeps [where k = "''onSearchOptions''"], simp)
  apply (auto simp: coerce_if_present_Inr lookup_put has_field_put SelectMenu_external_def has_field_simps split: if_splits)
  done

lemma MultiSelectMenu_onSearchOptions:
  assumes "MultiSelectMenu_toSlackElement props reconcile promises = Inr (JObj out, ps)"
  shows "has_field out ''onSearchOptions''
    \<and> lookup out ''onSearchOptions'' = lookup props ''onSearchOptions''"
  using assms unfolding MultiSelectMenu_toSlackElement_def Let_def
  apply -
  apply ((erule andThenE, (clarsimp)?)+)
  apply (drule MultiSelectMenu_static_keeps [where k = "''onSearchOptions''"], simp)
  apply (drule menu_identifiers_keeps [where k = "''onSearchOptions''"], simp)
  apply (auto simp: coerce_if_present_Inr lookup_put has_field_put MultiSelectMenu_external_def has_field_simps split: if_splits)
  done

lemma distinct_put: "distinct (map fst fs) \<Longrightarrow> distinct (map fst (put k v fs))"
  by (simp add: keys_put)

lemma lookup_distinct: "distinct (map fst fs) \<Longrightarrow> (k, v) \<in> set fs \<Longrightarrow> lookup fs k = v"
  by (induction fs) (auto simp: rev_image_eqI)

lemma json_fields_drops:
  assumes "distinct (map fst fs)" and "lookup fs k = JUndefined \<or> (\<exists>r. lookup fs k = JFun r)"
  shows "k \<notin> set (map fst (json_fields fs))"
proof
  assume "k \<in> set (map fst (json_fields fs))"
  then obtain v where v: "(k, v) \<in> set fs" "v \<noteq> JUndefined" "\<forall>r. v \<noteq> JFun r"
    by (auto simp: json_fields_def split: jsval.splits)
  from lookup_distinct [OF assms(1) v(1)] assms(2) v(2,3) show False by auto
qed

lemma SelectMenu_static_distinct:
  "SelectMenu_static props xs instance = Inr instance' \<Longrightarrow> distinct (map fst instance) \<Longrightarrow>
   distinct (map fst instance')"
  unfolding SelectMenu_static_def
  by (auto simp: distinct_put split: jsval.splits if_splits elim!: andThenE)

lemma MultiSelectMenu_static_distinct:
  "MultiSelectMenu_static props xs instance = Inr instance' \<Longrightarrow> distinct (map fst instance) \<Longrightarrow>
   distinct (map fst instance')"
  unfolding MultiSelectMenu_static_def
  by (auto simp: distinct_put split: jsval.splits if_splits elim!: andThenE)

lemma menu_identifiers_distinct:
  "menu_identifiers u c v props instance = Inr instance' \<Longrightarrow> distinct (map fst instance) \<Longrightarrow>
   distinct (map fst instance')"
  unfolding menu_identifiers_def Let_def
  by (auto simp: distinct_put split: if_splits elim!: andThenE)

lemma external_distinct:
  "distinct (map fst instance) \<Longrightarrow> distinct (map fst (SelectMenu_external props v instance))"
  "distinct (map fst instance) \<Longrightarrow> distinct (map fst (MultiSelectMenu_external props v instance))"
  by (simp_all add: SelectMenu_external_def MultiSelectMenu_external_def distinct_put)

lemma coerce_if_present_distinct:
  "coerce_if_present instance k = Inr instance' \<Longrightarrow> distinct (map fst instance) \<Longrightarrow>
   distinct (map fst instance')"
  by (auto simp: coerce_if_present_Inr distinct_put split: if_splits)

lemma SelectMenu_distinct:
  assumes "SelectMenu_toSlackElement props reconcile promises = Inr (JObj out, ps)"
  shows "distinct (map fst out)"
  using assms unfolding SelectMenu_toSlackElement_def Let_def
  apply -
  apply ((erule andThenE, (clarsimp)?)+)
  apply (drule SelectMenu_static_distinct, simp)
  apply (drule menu_identifiers_distinct, simp add: external_distinct)
  apply (drule coerce_if_present_distinct, simp add: distinct_put)
  apply simp
  done

lemma MultiSelectMenu_distinct:
  assumes "MultiSelectMenu_toSlackElement props reconcile promises = Inr (JObj out, ps)"
  shows "distinct (map fst out)"
  using assms unfolding MultiSelectMenu_toSlackElement_def Let_def
  apply -
  apply ((erule andThenE, (clarsimp)?)+)
  apply (drule MultiSelectMenu_static_distinct, simp)
  apply (drule menu_identifiers_distinct, simp add: external_distinct)
  apply (drule coerce_if_present_distinct, simp add: distinct_put)
  apply simp
  done

text \<open>
  C9, as the code has it. The elements the rules emit carry internal fields that no rule
  removes. The element of a Confirm has exactly the fields \<open>isConfirm\<close>, \<open>style\<close>,
  \<open>title\<close>, \<open>confirm\<close>, \<open>deny\<close>, with \<open>isConfirm\<close> a function; that of an Option exactly
  \<open>isSelected\<close>, \<open>isOption\<close>, \<open>value\<close>, \<open>url\<close>, \<open>description\<close>, the first two functions;
  that of an OptionGroup exactly \<open>isOptionGroup\<close>, \<open>options\<close>, \<open>label\<close>, the first a
  function: none of the three is free of functions. Every element of a SelectMenu or
  MultiSelectMenu has the field \<open>onSearchOptions\<close>, holding the prop of that name. All
  these fields are skipped when the element is written as JSON, \<open>onSearchOptions\<close>
  provided the prop is a function or absent.
\<close>

theorem rules_emit_marker_fields:
  "(Confirm_toSlackElement cprops reconcile promises = Inr (JObj cout, cps) \<longrightarrow>
      map fst cout = [''isConfirm'', ''style'', ''title'', ''confirm'', ''deny'']
      \<and> lookup cout ''isConfirm'' = JFun (JBool True)
      \<and> \<not> function_free (JObj cout)
      \<and> ''isConfirm'' \<notin> set (map fst (json_fields cout)))
   \<and> (Option_toSlackElement oprops reconcile promises = Inr (JObj oout, ops) \<longrightarrow>
      map fst oout = [''isSelected'', ''isOption'', ''value'', ''url'', ''description'']
      \<and> lookup oout ''isSelected'' = JFun (lookup oprops ''selected'')
      \<and> lookup oout ''isOption'' = JFun (JBool True)
      \<and> \<not> function_free (JObj oout)
      \<and> ''isSelected'' \<notin> set (map fst (json_fields oout))
      \<and> ''isOption'' \<notin> set (map fst (json_fields oout)))
   \<and> (OptionGroup_toSlackElement gprops reconcile promises = Inr (JObj gout, gps) \<longrightarrow>
      map fst gout = [''isOptionGroup'', ''options'', ''label'']
      \<and> lookup gout ''isOptionGroup'' = JFun (JBool True)
      \<and> \<not> function_free (JObj gout)
      \<and> ''isOptionGroup'' \<notin> set (map fst (json_fields gout)))
   \<and> (SelectMenu_toSlackElement sprops reconcile promises = Inr (JObj sout, sps) \<longrightarrow>
      has_field sout ''onSearchOptions''
      \<and> lookup sout ''onSearchOptions'' = lookup sprops ''onSearchOptions''
      \<and> (lookup sprops ''onSearchOptions'' = JUndefined
           \<or> (\<exists>search. lookup sprops ''onSearchOptions'' = JFun search)
           \<longrightarrow> ''onSearchOptions'' \<notin> set (map fst (json_fields sout))))
   \<and> (MultiSelectMenu_toSlackElement mprops reconcile promises = Inr (JObj mout, mps) \<longrightarrow>
      has_field mout ''onSearchOptions''
      \<and> lookup mout ''onSearchOptions'' = lookup mprops ''onSearchOptions''
      \<and> (lookup mprops ''onSearchOptions'' = JUndefined
           \<or> (\<exists>search. lookup mprops ''onSearchOptions'' = JFun search)
           \<longrightarrow> ''onSearchOptions'' \<notin> set (map fst (json_fields mout))))"
proof (intro conjI impI)
  assume "Confirm_toSlackElement cprops reconcile promises = Inr (JObj cout, cps)"
  from Confirm_fields [OF this]
  have keys: "map fst cout = [''isConfirm'', ''style'', ''title'', ''confirm'', ''deny'']"
    and marker: "lookup cout ''isConfirm'' = JFun (JBool True)"
    by simp_all
  from keys have "distinct (map fst cout)" by simp
  from json_fields_drops [OF this, of "''isConfirm''"] keys marker
  show "map fst cout = [''isConfirm'', ''style'', ''title'', ''confirm'', ''deny'']"
    and "lookup cout ''isConfirm'' = JFun (JBool True)"
    and "\<not> function_free (JObj cout)"
    and "''isConfirm'' \<notin> set (map fst (json_fields cout))"
    by (auto dest: function_valued_field)
next
  assume "Option_toSlackElement oprops reconcile promises = Inr (JObj oout, ops)"
  from Option_fields [OF this]
  have keys: "map fst oout = [''isSelected'', ''isOption'', ''value'', ''url'', ''description'']"
    and markers: "lookup oout ''isSelected'' = JFun (lookup oprops ''selected'')"
      "lookup oout ''isOption'' = JFun (JBool True)"
    by simp_all
  from keys have "distinct (map fst oout)" by simp
  from json_fields_drops [OF this, of "''isSelected''"]
    json_fields_drops [OF this, of "''isOption''"] keys markers
  show "map fst oout = [''isSelected'', ''isOption'', ''value'', ''url'', ''description'']"
    and "lookup oout ''isSelected'' = JFun (lookup oprops ''selected'')"
    and "lookup oout ''isOption'' = JFun (JBool True)"
    and "\<not> function_free (JObj oout)"
    and "''isSelected'' \<notin> set (map fst (json_fields oout))"
    and "''isOption'' \<notin> set (map fst (json_fields oout))"
    by (auto dest: function_valued_field)
next
  assume "OptionGroup_toSlackElement gprops reconcile promises = Inr (JObj gout, gps)"
  from OptionGroup_fields [OF this]
  have keys: "map fst gout = [''isOptionGroup'', ''options'', ''label'']"
    and marker: "lookup gout ''isOptionGroup'' = JFun (JBool True)"
    by simp_all
  from keys have "distinct (map fst gout)" by simp
  from json_fields_drops [OF this, of "''isOptionGroup''"] keys marker
  show "map fst gout = [''isOptionGroup'', ''options'', ''label'']"
    and "lookup gout ''isOptionGroup'' = JFun (JBool True)"
    and "\<not> function_free (JObj gout)"
    and "''isOptionGroup'' \<notin> set (map fst (json_fields gout))"
    by (auto dest: function_valued_field)
next
  assume run: "SelectMenu_toSlackElement sprops reconcile promises = Inr (JObj sout, sps)"
  from SelectMenu_onSearchOptions [OF run]
  show "has_field sout ''onSearchOptions''"
    and field: "lookup sout ''onSearchOptions'' = lookup sprops ''onSearchOptions''"
    by simp_all
  assume "lookup sprops ''onSearchOptions'' = JUndefined
    \<or> (\<exists>search. lookup sprops ''onSearchOptions'' = JFun search)"
  with json_fields_drops [OF SelectMenu_distinct [OF run], of "''onSearchOptions''"] field
  show "''onSearchOptions'' \<notin> set (map fst (json_fields sout))"
    by simp
next
  assume run: "MultiSelectMenu_toSlackElement mprops reconcile promises = Inr (JObj mout, mps)"
  from MultiSelectMenu_onSearchOptions [OF run]
  show "has_field mout ''onSearchOptions''"
    and field: "lookup mout ''onSearchOptions'' = lookup mprops ''onSearchOptions''"
    by simp_all
  assume "lookup mprops ''onSearchOptions'' = JUndefined
    \<or> (\<exists>search. lookup mprops ''onSearchOptions'' = JFun search)"
  with json_fields_drops [OF MultiSelectMenu_distinct [OF run], of "''onSearchOptions''"] field
  show "''onSearchOptions'' \<notin> set (map fst (json_fields mout))"
    by simp
qed

theorem rules_emit_marker_fields_witness:
  "Confirm_toSlackElement
     [(''title'', JStr ''Sure?''), (''confirm'', JStr ''Yes''), (''deny'', JStr ''No'')]
     (resolve 4) [] = Inr (confirm_dialog, [])
   \<and> \<not> function_free confirm_dialog
   \<and> Option_toSlackElement
       [(''value'', JStr ''pear''), (''url'', JStr ''https://example.com''),
        (''selected'', JBool True), (''children'', JStr ''pear'')]
       (resolve 4) [] = Inr (resolved_option ''pear'' (JBool True), [])
   \<and> \<not> function_free (resolved_option ''pear'' (JBool True))
   \<and> OptionGroup_toSlackElement [(''label'', JStr ''Pome'')] (resolve 4) [] =
       Inr (JObj [(''isOptionGroup'', JFun (JBool True)), (''options'', JArr []),
                  (''label'', JObj [(''type'', JStr ''plain_text''),
                                    (''text'', JStr ''Pome'')])], [])
   \<and> SelectMenu_toSlackElement external_menu (resolve 4) [] =
       Inr (JObj [(''type'', JStr ''external_select''), (''action_id'', JStr ''fruit''),
                  (''onSearchOptions'', JFun (JArr [])),
                  (''initial_option'', clear_url (resolved_option ''pear'' (JBool True))),
                  (''min_query_length'', JNum 2), (''confirm'', JUndefined),
                  (''placeholder'', JObj [(''type'', JStr ''plain_text''),
                                          (''text'', JStr ''Pick'')])], [])
   \<and> MultiSelectMenu_toSlackElement external_menu (resolve 4) [] =
       Inr (JObj [(''type'', JStr ''multi_external_select''), (''action_id'', JStr ''fruit''),
                  (''max_selected_items'', JUndefined),
                  (''onSearchOptions'', JFun (JArr [])),
                  (''initial_options'', JUndefined), (''min_query_length'', JNum 2),
                  (''confirm'', JUndefined),
                  (''placeholder'', JObj [(''type'', JStr ''plain_text''),
                                          (''text'', JStr ''Pick'')])], [])
   \<and> lookup external_menu ''onSearchOptions'' = JFun (JArr [])
   \<and> ''isConfirm'' \<notin> set (map fst (json_fields
         [(''isConfirm'', JFun (JBool True)), (''style'', JUndefined),
          (''title'', JObj [(''type'', JStr ''plain_text''), (''text'', JStr ''Sure?'')]),
          (''confirm'', JObj [(''type'', JStr ''plain_text''), (''text'', JStr ''Yes'')]),
          (''deny'', JObj [(''type'', JStr ''plain_text''), (''text'', JStr ''No'')])]))"
proof -
  let ?dialog = "[(''isConfirm'', JFun (JBool True)), (''style'', JUndefined),
      (''title'', JObj [(''type'', JStr ''plain_text''), (''text'', JStr ''Sure?'')]),
      (''confirm'', JObj [(''type'', JStr ''plain_text''), (''text'', JStr ''Yes'')]),
      (''deny'', JObj [(''type'', JStr ''plain_text''), (''text'', JStr ''No'')])]"
  let ?option = "[(''isSelected'', JFun (JBool True)), (''isOption'', JFun (JBool True)),
      (''value'', JStr ''pear''), (''url'', JStr ''https://example.com''),
      (''description'', JUndefined)]"
  let ?group = "[(''isOptionGroup'', JFun (JBool True)), (''options'', JArr []),
      (''label'', JObj [(''type'', JStr ''plain_text''), (''text'', JStr ''Pome'')])]"
  let ?single = "[(''type'', JStr ''external_select''), (''action_id'', JStr ''fruit''),
      (''onSearchOptions'', JFun (JArr [])),
      (''initial_option'', clear_url (resolved_option ''pear'' (JBool True))),
      (''min_query_length'', JNum 2), (''confirm'', JUndefined),
      (''placeholder'', JObj [(''type'', JStr ''plain_text''), (''text'', JStr ''Pick'')])]"
  let ?multi = "[(''type'', JStr ''multi_external_select''), (''action_id'', JStr ''fruit''),
      (''max_selected_items'', JUndefined), (''onSearchOptions'', JFun (JArr [])),
      (''initial_options'', JUndefined), (''min_query_length'', JNum 2),
      (''confirm'', JUndefined),
      (''placeholder'', JObj [(''type'', JStr ''plain_text''), (''text'', JStr ''Pick'')])]"
  have runs:
    "Confirm_toSlackElement
       [(''title'', JStr ''Sure?''), (''confirm'', JStr ''Yes''), (''deny'', JStr ''No'')]
       (resolve 4) [] = Inr (JObj ?dialog, [])"
    "Option_toSlackElement
       [(''value'', JStr ''pear''), (''url'', JStr ''https://example.com''),
        (''selected'', JBool True), (''children'', JStr ''pear'')]
       (resolve 4) [] = Inr (JObj ?option, [])"
    "OptionGroup_toSlackElement [(''label'', JStr ''Pome'')] (resolve 4) [] =
       Inr (JObj ?group, [])"
    "SelectMenu_toSlackElement external_menu (resolve 4) [] = Inr (JObj ?single, [])"
    "MultiSelectMenu_toSlackElement external_menu (resolve 4) [] = Inr (JObj ?multi, [])"
    by code_simp+
  have callback: "lookup external_menu ''onSearchOptions'' = JFun (JArr [])"
    by (simp add: external_menu_def)
  from rules_emit_marker_fields
    [where reconcile = "resolve 4" and promises = "[]"
      and cprops = "[(''title'', JStr ''Sure?''), (''confirm'', JStr ''Yes''),
                     (''deny'', JStr ''No'')]"
      and cout = ?dialog and cps = "[]"
      and oprops = "[(''value'', JStr ''pear''), (''url'', JStr ''https://example.com''),
                     (''selected'', JBool True), (''children'', JStr ''pear'')]"
      and oout = ?option and ops = "[]"
      and gprops = "[(''label'', JStr ''Pome'')]" and gout = ?group and gps = "[]"
      and sprops = external_menu and sout = ?single and sps = "[]"
      and mprops = external_menu and mout = ?multi and mps = "[]"]
    runs callback
  show ?thesis
    by (simp add: confirm_dialog_def resolved_option_def del: resolve.simps)
qed

text \<open>
  The claim as the spec states it fails on a root Message whose Section has a Button
  with a confirm dialog: the Document holds the dialog with its function-valued
  \<open>isConfirm\<close>.
\<close>

theorem document_carries_marker_counterexample:
  "resolve 5 confirm_message = Inr (confirm_document, [])
   \<and> \<not> function_free confirm_document
   \<and> get_prop confirm_dialog ''isConfirm'' = Inr (JFun (JBool True))"
  by code_simp

end
